theory Spec2Isabelle
  imports Main
begin

section \<open>Python values, exceptions and the cookie-jar store\<close>

text \<open>
  The wrapper in \<^verbatim>\<open>omnivox.py\<close> is sequential Python over three libraries:
  \<^verbatim>\<open>requests\<close> (HTTP), \<^verbatim>\<open>pyquery\<close> (HTML queries) and \<^verbatim>\<open>pyjsparser\<close>. The
  libraries are not part of the repository; they are parameters of the model (the record
  \<open>env\<close> below). Everything the repository's own code does is written out: each statement
  that can raise is a branch returning \<open>Inl\<close>, each mutation is a change of the page
  record or of the store of cookie jars.
\<close>

text \<open>A Python value that is a \<^verbatim>\<open>str\<close> or \<^verbatim>\<open>None\<close>.\<close>

type_synonym pystr = "string option"

datatype exn =
    TypeError
  | IndexError
  | KeyError
  | MissingSchema
  | RequestException
  | ParserError
  | JsSyntaxError

text \<open>\<^verbatim>\<open>a + b\<close> for a \<^verbatim>\<open>str\<close> \<open>a\<close>: a \<^verbatim>\<open>TypeError\<close> when \<open>b\<close> is \<^verbatim>\<open>None\<close>.\<close>

definition py_add :: "string \<Rightarrow> pystr \<Rightarrow> exn + string" where
  "py_add a b = (case b of None \<Rightarrow> Inl TypeError | Some s \<Rightarrow> Inr (a @ s))"

text \<open>
  A \<^verbatim>\<open>RequestsCookieJar\<close> is a mutable object. Jars live in a store indexed by
  addresses; \<^verbatim>\<open>jar.update(other)\<close> writes the entries of \<open>other\<close> over those of
  \<open>jar\<close>, in place.
\<close>

type_synonym addr = nat
type_synonym cookiejar = "string \<rightharpoonup> string"

record request =
  http_method :: string
  url :: string
  headers :: "(string \<times> string) list"
  sent_cookies :: cookiejar
  form_data :: "(string \<times> pystr) list"
  allow_redirects :: bool

text \<open>What the portal answers: status, body and the cookies it sets.\<close>

record answer =
  ans_status :: int
  ans_text :: string
  ans_cookies :: cookiejar

text \<open>A \<^verbatim>\<open>requests.Response\<close>; its \<^verbatim>\<open>cookies\<close> attribute is a jar of its own.\<close>

record response =
  status_code :: int
  body_text :: string
  resp_cookies :: addr

record world =
  jars :: "addr \<Rightarrow> cookiejar"
  next_addr :: addr
  sent :: "request list"

definition new_jar :: "cookiejar \<Rightarrow> world \<Rightarrow> addr \<times> world" where
  "new_jar c w = (next_addr w, w\<lparr>jars := (jars w)(next_addr w := c), next_addr := Suc (next_addr w)\<rparr>)"

definition jar_update :: "addr \<Rightarrow> addr \<Rightarrow> world \<Rightarrow> world" where
  "jar_update a b w = w\<lparr>jars := (jars w)(a := jars w a ++ jars w b)\<rparr>"

section \<open>The external collaborators\<close>

text \<open>JSON-like trees, as \<^verbatim>\<open>pyjsparser\<close> returns them (nested dicts and lists).\<close>

datatype jsval =
    JDict "(string \<times> jsval) list"
  | JList "jsval list"
  | JStr string
  | JOther

text \<open>
  \<open>transport\<close> is the portal seen through \<^verbatim>\<open>requests\<close>: given the requests sent so
  far and the next one, it raises or answers. The HTML facility works on selections
  (lists of elements of type \<open>'e\<close>), as a \<^verbatim>\<open>PyQuery\<close> object is a list of elements.
\<close>

record 'e env =
  transport :: "request list \<Rightarrow> request \<Rightarrow> exn + answer"
  html_parse :: "string \<Rightarrow> exn + 'e list"
  q_find :: "string \<Rightarrow> 'e list \<Rightarrow> 'e list"
  q_children :: "string \<Rightarrow> 'e list \<Rightarrow> 'e list"
  el_get :: "'e \<Rightarrow> string \<Rightarrow> pystr"
  q_text :: "'e list \<Rightarrow> string"
  q_val :: "'e list \<Rightarrow> pystr"
  js_parse :: "pystr \<Rightarrow> exn + jsval"

text \<open>\<^verbatim>\<open>selection.attr(name)\<close>: the attribute of the first element, \<^verbatim>\<open>None\<close> when the
  selection is empty or the element lacks it.\<close>

definition q_attr :: "'e env \<Rightarrow> string \<Rightarrow> 'e list \<Rightarrow> pystr" where
  "q_attr env name sel = (case sel of [] \<Rightarrow> None | e # _ \<Rightarrow> el_get env e name)"

text \<open>\<^verbatim>\<open>selection[i]\<close>: list indexing, \<^verbatim>\<open>IndexError\<close> out of range.\<close>

definition q_index :: "'e list \<Rightarrow> nat \<Rightarrow> exn + 'e" where
  "q_index sel i = (if i < length sel then Inr (sel ! i) else Inl IndexError)"

definition HEADER_UA :: "(string \<times> string) list" where
  "HEADER_UA = [(''User-Agent'', ''Mozilla/5.0'')]"

definition VANIER_DOMAIN :: string where
  "VANIER_DOMAIN = ''https://vaniercollege.omnivox.ca''"

definition LEA_DOMAIN :: string where
  "LEA_DOMAIN = ''https://vaniercollege-estd.omnivox.ca/estd''"

text \<open>
  One call of \<^verbatim>\<open>requests.get\<close> or \<^verbatim>\<open>requests.post\<close>. A \<open>url\<close> that is \<^verbatim>\<open>None\<close> is
  refused with \<^verbatim>\<open>MissingSchema\<close> before anything is sent. Otherwise the request is
  recorded as sent; the jar passed as \<^verbatim>\<open>cookies=\<close> is read, not changed; the response
  carries a new jar.
\<close>

definition requests_send ::
  "'e env \<Rightarrow> string \<Rightarrow> pystr \<Rightarrow> addr option \<Rightarrow> (string \<times> pystr) list \<Rightarrow> bool \<Rightarrow> world
    \<Rightarrow> (exn + response) \<times> world" where
  "requests_send env m u cookies dat redir w =
     (case u of
        None \<Rightarrow> (Inl MissingSchema, w)
      | Some u' \<Rightarrow>
          let r = \<lparr>http_method = m, url = u', headers = HEADER_UA,
                   sent_cookies = (case cookies of None \<Rightarrow> Map.empty | Some a \<Rightarrow> jars w a),
                   form_data = dat, allow_redirects = redir\<rparr>;
              w1 = w\<lparr>sent := sent w @ [r]\<rparr>
          in (case transport env (sent w) r of
                Inl e \<Rightarrow> (Inl e, w1)
              | Inr a \<Rightarrow>
                  let (j, w2) = new_jar (ans_cookies a) w1
                  in (Inr \<lparr>status_code = ans_status a, body_text = ans_text a, resp_cookies = j\<rparr>, w2)))"

definition requests_get :: "'e env \<Rightarrow> string \<Rightarrow> addr option \<Rightarrow> world \<Rightarrow> (exn + response) \<times> world" where
  "requests_get env u cookies w = requests_send env ''GET'' (Some u) cookies [] True w"

definition requests_post ::
  "'e env \<Rightarrow> pystr \<Rightarrow> addr option \<Rightarrow> (string \<times> pystr) list \<Rightarrow> bool \<Rightarrow> world \<Rightarrow> (exn + response) \<times> world" where
  "requests_post env u cookies dat redir w = requests_send env ''POST'' u cookies dat redir w"

section \<open>The redirect resolver\<close>

text \<open>Python subscripts \<^verbatim>\<open>v[key]\<close> and \<^verbatim>\<open>v[0]\<close> on a parsed tree.\<close>

definition js_key :: "jsval \<Rightarrow> string \<Rightarrow> exn + jsval" where
  "js_key v k =
     (case v of
        JDict kvs \<Rightarrow> (case map_of kvs k of None \<Rightarrow> Inl KeyError | Some x \<Rightarrow> Inr x)
      | _ \<Rightarrow> Inl TypeError)"

definition js_first :: "jsval \<Rightarrow> exn + jsval" where
  "js_first v =
     (case v of
        JList xs \<Rightarrow> (case xs of [] \<Rightarrow> Inl IndexError | x # _ \<Rightarrow> Inr x)
      | JDict kvs \<Rightarrow> Inl KeyError
      | JStr s \<Rightarrow> (case s of [] \<Rightarrow> Inl IndexError | c # _ \<Rightarrow> Inr (JStr [c]))
      | JOther \<Rightarrow> Inl TypeError)"

definition and_then :: "exn + 'a \<Rightarrow> ('a \<Rightarrow> exn + 'b) \<Rightarrow> exn + 'b" where
  "and_then r f = (case r of Inl e \<Rightarrow> Inl e | Inr x \<Rightarrow> f x)"

text \<open>
  \<^verbatim>\<open>get_js_redirect(tag)\<close>:
  \<^verbatim>\<open>js["body"][0]["expression"]["arguments"][0]["value"]\<close> of the parsed \<^verbatim>\<open>onload\<close>.
\<close>

definition get_js_redirect :: "'e env \<Rightarrow> 'e list \<Rightarrow> exn + jsval" where
  "get_js_redirect env tag =
     (let raw = q_attr env ''onload'' tag
      in and_then (js_parse env raw) (\<lambda>js.
         and_then (js_key js ''body'') (\<lambda>b.
         and_then (js_first b) (\<lambda>s.
         and_then (js_key s ''expression'') (\<lambda>x.
         and_then (js_key x ''arguments'') (\<lambda>args.
         and_then (js_first args) (\<lambda>a.
         js_key a ''value'')))))))"

text \<open>\<^verbatim>\<open>prefix + v\<close> where \<open>v\<close> came out of the parsed tree: only a \<^verbatim>\<open>str\<close> concatenates.\<close>

definition py_add_js :: "string \<Rightarrow> jsval \<Rightarrow> exn + string" where
  "py_add_js a v = (case v of JStr s \<Rightarrow> Inr (a @ s) | _ \<Rightarrow> Inl TypeError)"

section \<open>Semesters, courses, schedules\<close>

record OmnivoxSemester =
  semester_id :: pystr
  semester_name :: string
  current :: bool

record OmnivoxSemesterScheduleCourse =
  number :: string
  section_no :: string
  title :: string
  teacher :: string

record OmnivoxSemesterSchedule =
  semester :: OmnivoxSemester
  courses :: "OmnivoxSemesterScheduleCourse list"

section \<open>The schedule selection page\<close>

text \<open>
  \<^verbatim>\<open>LeaScheduleSelectionPage\<close>. \<^verbatim>\<open>_semesters\<close> and \<^verbatim>\<open>_schedule_request_url\<close> start
  as \<^verbatim>\<open>None\<close>; the cache is a dict keyed by semester id.
\<close>

record page =
  page_cookies :: addr
  schedule_reference :: pystr
  priv_semesters :: "OmnivoxSemester list option"
  priv_schedule_cache :: "pystr \<rightharpoonup> OmnivoxSemesterSchedule"
  priv_schedule_request_url :: pystr

record 'e OmnivoxSession =
  sess_cookies :: addr
  homepage_html :: string
  homepage_d :: "'e list"

text \<open>\<^verbatim>\<open>LeaScheduleSelectionPage.__init__\<close>: a new jar, updated from the session's.\<close>

definition page_init :: "'e OmnivoxSession \<Rightarrow> pystr \<Rightarrow> world \<Rightarrow> page \<times> world" where
  "page_init session ref w =
     (let (j, w1) = new_jar Map.empty w;
          w2 = jar_update j (sess_cookies session) w1
      in (\<lparr>page_cookies = j, schedule_reference = ref, priv_semesters = None,
           priv_schedule_cache = Map.empty, priv_schedule_request_url = None\<rparr>, w2))"

text \<open>
  Lines 103 to 126 of \<^verbatim>\<open>fetch\<close>: the three GETs, the two cookie updates and the
  parse of the selection document. Only the store changes; the page's fields are read.
\<close>

definition load_selection_document :: "'e env \<Rightarrow> page \<Rightarrow> world \<Rightarrow> (exn + 'e list) \<times> world" where
  "load_selection_document env p w =
     (case py_add VANIER_DOMAIN (schedule_reference p) of
        Inl e \<Rightarrow> (Inl e, w)
      | Inr u1 \<Rightarrow>
     (case requests_get env u1 (Some (page_cookies p)) w of
        (Inl e, w1) \<Rightarrow> (Inl e, w1)
      | (Inr r1, w1) \<Rightarrow>
     (let w2 = jar_update (page_cookies p) (resp_cookies r1) w1 in
     (case html_parse env (body_text r1) of
        Inl e \<Rightarrow> (Inl e, w2)
      | Inr d1 \<Rightarrow>
     (case and_then (get_js_redirect env (q_find env ''body'' d1)) (py_add_js (LEA_DOMAIN @ ''/'')) of
        Inl e \<Rightarrow> (Inl e, w2)
      | Inr session_load_url \<Rightarrow>
     (case requests_get env session_load_url (Some (page_cookies p)) w2 of
        (Inl e, w3) \<Rightarrow> (Inl e, w3)
      | (Inr r2, w3) \<Rightarrow>
     (let w4 = jar_update (page_cookies p) (resp_cookies r2) w3 in
     (case requests_get env (LEA_DOMAIN @ ''/hrre/horaire.ovx'') (Some (page_cookies p)) w4 of
        (Inl e, w5) \<Rightarrow> (Inl e, w5)
      | (Inr r3, w5) \<Rightarrow>
     (case html_parse env (body_text r3) of
        Inl e \<Rightarrow> (Inl e, w5)
      | Inr page_d \<Rightarrow> (Inr page_d, w5))))))))))"

text \<open>Lines 125 to 131: one semester per \<^verbatim>\<open><option>\<close> of the semester \<^verbatim>\<open><select>\<close>.\<close>

definition semester_options :: "'e env \<Rightarrow> 'e list \<Rightarrow> 'e list" where
  "semester_options env page_d =
     q_children env ''option'' (q_find env ''select[name='AnSession']'' page_d)"

definition semester_of_option :: "'e env \<Rightarrow> 'e \<Rightarrow> OmnivoxSemester" where
  "semester_of_option env option =
     \<lparr>semester_id = q_val env [option], semester_name = q_text env [option],
      current = (q_attr env ''selected'' [option] \<noteq> None)\<rparr>"

definition parse_semesters :: "'e env \<Rightarrow> 'e list \<Rightarrow> OmnivoxSemester list" where
  "parse_semesters env page_d = map (semester_of_option env) (semester_options env page_d)"

text \<open>
  \<^verbatim>\<open>fetch\<close>. \<^verbatim>\<open>_semesters\<close> is assigned before the request URL is built (lines 133
  and 134), so a failing concatenation leaves the semesters set and the URL as it was.
\<close>

definition fetch :: "'e env \<Rightarrow> page \<Rightarrow> world \<Rightarrow> (exn + unit) \<times> page \<times> world" where
  "fetch env p w =
     (case load_selection_document env p w of
        (Inl e, w1) \<Rightarrow> (Inl e, p, w1)
      | (Inr page_d, w1) \<Rightarrow>
          let p1 = p\<lparr>priv_semesters := Some (parse_semesters env page_d)\<rparr>
          in (case py_add (LEA_DOMAIN @ ''/hrre/'') (q_attr env ''action'' (q_find env ''form'' page_d)) of
                Inl e \<Rightarrow> (Inl e, p1, w1)
              | Inr u \<Rightarrow> (Inr (), p1\<lparr>priv_schedule_request_url := Some u\<rparr>, w1)))"

text \<open>\<^verbatim>\<open>not self._semesters\<close>: true for \<^verbatim>\<open>None\<close> and for the empty tuple.\<close>

definition py_not :: "'a list option \<Rightarrow> bool" where
  "py_not v = (case v of None \<Rightarrow> True | Some xs \<Rightarrow> xs = [])"

text \<open>The first two lines of each query: \<^verbatim>\<open>if not self._semesters: await self.fetch()\<close>.\<close>

definition fetch_if_needed :: "'e env \<Rightarrow> page \<Rightarrow> world \<Rightarrow> (exn + unit) \<times> page \<times> world" where
  "fetch_if_needed env p w = (if py_not (priv_semesters p) then fetch env p w else (Inr (), p, w))"

text \<open>\<^verbatim>\<open>get_current_semester\<close>: the first semester of the tuple whose flag is set.\<close>

definition get_current_semester ::
  "'e env \<Rightarrow> page \<Rightarrow> world \<Rightarrow> (exn + OmnivoxSemester option) \<times> page \<times> world" where
  "get_current_semester env p w =
     (case fetch_if_needed env p w of
        (Inl e, p1, w1) \<Rightarrow> (Inl e, p1, w1)
      | (Inr _, p1, w1) \<Rightarrow>
          (case priv_semesters p1 of
             None \<Rightarrow> (Inl TypeError, p1, w1)
           | Some sems \<Rightarrow> (Inr (find current sems), p1, w1)))"

definition get_all_semesters ::
  "'e env \<Rightarrow> page \<Rightarrow> world \<Rightarrow> (exn + OmnivoxSemester list) \<times> page \<times> world" where
  "get_all_semesters env p w =
     (case fetch_if_needed env p w of
        (Inl e, p1, w1) \<Rightarrow> (Inl e, p1, w1)
      | (Inr _, p1, w1) \<Rightarrow>
          (case priv_semesters p1 of
             None \<Rightarrow> (Inl TypeError, p1, w1)
           | Some sems \<Rightarrow> (Inr sems, p1, w1)))"

subsection \<open>Requesting a schedule\<close>

text \<open>The form that \<^verbatim>\<open>get_schedule\<close> posts (lines 175 to 178).\<close>

definition schedule_form :: "OmnivoxSemester \<Rightarrow> (string \<times> pystr) list" where
  "schedule_form sem = [(''AnSession'', semester_id sem), (''Confirm'', Some ''Obtain+my+schedule'')]"

text \<open>
  Lines 171 to 190 of \<^verbatim>\<open>get_schedule\<close>: the POST of the form, the script redirect,
  the GET of the results page and its parse.
\<close>

definition load_results_page ::
  "'e env \<Rightarrow> page \<Rightarrow> OmnivoxSemester \<Rightarrow> world \<Rightarrow> (exn + 'e list) \<times> world" where
  "load_results_page env p sem w =
     (case requests_post env (priv_schedule_request_url p) (Some (page_cookies p))
             (schedule_form sem) True w of
        (Inl e, w1) \<Rightarrow> (Inl e, w1)
      | (Inr r1, w1) \<Rightarrow>
     (case html_parse env (body_text r1) of
        Inl e \<Rightarrow> (Inl e, w1)
      | Inr d1 \<Rightarrow>
     (case and_then (get_js_redirect env (q_find env ''body'' d1)) (py_add_js (LEA_DOMAIN @ ''/hrre/'')) of
        Inl e \<Rightarrow> (Inl e, w1)
      | Inr body_redirect_location \<Rightarrow>
     (case requests_get env body_redirect_location (Some (page_cookies p)) w1 of
        (Inl e, w2) \<Rightarrow> (Inl e, w2)
      | (Inr r2, w2) \<Rightarrow>
     (case html_parse env (body_text r2) of
        Inl e \<Rightarrow> (Inl e, w2)
      | Inr schedule_d \<Rightarrow> (Inr schedule_d, w2))))))"

text \<open>
  The body of the loop (lines 198 to 211): the cells at positions 1 to 4 of the row;
  \<^verbatim>\<open>children("td")[k]\<close> raises \<^verbatim>\<open>IndexError\<close> on a row with fewer cells.
\<close>

definition course_of_row :: "'e env \<Rightarrow> 'e \<Rightarrow> exn + OmnivoxSemesterScheduleCourse" where
  "course_of_row env row =
     (let tds = q_children env ''td'' [row]
      in and_then (q_index tds 1) (\<lambda>c1.
         and_then (q_index tds 2) (\<lambda>c2.
         and_then (q_index tds 3) (\<lambda>c3.
         and_then (q_index tds 4) (\<lambda>c4.
         Inr \<lparr>number = q_text env (q_find env ''span'' [c1]),
              section_no = q_text env (q_find env ''span'' [c2]),
              title = q_text env (q_find env ''span'' [c3]),
              teacher = q_text env (q_find env ''a'' [c4])\<rparr>)))))"

text \<open>A \<^verbatim>\<open>for\<close> loop that appends one result per element and stops at the first raise.\<close>

fun collect :: "('a \<Rightarrow> exn + 'b) \<Rightarrow> 'a list \<Rightarrow> exn + 'b list" where
  "collect f [] = Inr []"
| "collect f (x # xs) =
     (case f x of
        Inl e \<Rightarrow> Inl e
      | Inr y \<Rightarrow> (case collect f xs of Inl e \<Rightarrow> Inl e | Inr ys \<Rightarrow> Inr (y # ys)))"

text \<open>
  The table translator (lines 189 to 211). \<^verbatim>\<open>range(3, len(rows) - 1)\<close> is empty when
  there are fewer than five rows, as \<open>[3..<length rows - 1]\<close> is; inside the range the
  index is always in bounds.
\<close>

definition translate_table :: "'e env \<Rightarrow> 'e list \<Rightarrow> exn + OmnivoxSemesterScheduleCourse list" where
  "translate_table env schedule_d =
     (if q_find env ''.tbAvertissement'' schedule_d = [] then
        and_then (q_index (q_find env ''.tbContenantPageLayout table table'' schedule_d) 3)
          (\<lambda>schedule_course_list_table.
             let course_list_rows = q_children env ''tr'' [schedule_course_list_table]
             in collect (\<lambda>i. course_of_row env (course_list_rows ! i))
                  [3..<length course_list_rows - 1])
      else Inr [])"

text \<open>\<^verbatim>\<open>get_schedule(semester, force)\<close>.\<close>

definition get_schedule ::
  "'e env \<Rightarrow> page \<Rightarrow> OmnivoxSemester \<Rightarrow> bool \<Rightarrow> world
    \<Rightarrow> (exn + OmnivoxSemesterSchedule) \<times> page \<times> world" where
  "get_schedule env p sem force w =
     (case fetch_if_needed env p w of
        (Inl e, p1, w1) \<Rightarrow> (Inl e, p1, w1)
      | (Inr _, p1, w1) \<Rightarrow>
          (case (if force then None else priv_schedule_cache p1 (semester_id sem)) of
             Some cached \<Rightarrow> (Inr cached, p1, w1)
           | None \<Rightarrow>
               (case load_results_page env p1 sem w1 of
                  (Inl e, w2) \<Rightarrow> (Inl e, p1, w2)
                | (Inr schedule_d, w2) \<Rightarrow>
                    (case translate_table env schedule_d of
                       Inl e \<Rightarrow> (Inl e, p1, w2)
                     | Inr cs \<Rightarrow>
                         let schedule = \<lparr>semester = sem, courses = cs\<rparr>
                         in (Inr schedule,
                             p1\<lparr>priv_schedule_cache := (priv_schedule_cache p1)(semester_id sem \<mapsto> schedule)\<rparr>,
                             w2)))))"

section \<open>Session and login\<close>

text \<open>\<^verbatim>\<open>OmnivoxSession.__init__\<close> parses the landing page; the parse can raise.\<close>

definition session_init :: "'e env \<Rightarrow> addr \<Rightarrow> string \<Rightarrow> exn + 'e OmnivoxSession" where
  "session_init env cookies html =
     (case html_parse env html of
        Inl e \<Rightarrow> Inl e
      | Inr d \<Rightarrow> Inr \<lparr>sess_cookies = cookies, homepage_html = html, homepage_d = d\<rparr>)"

text \<open>
  \<^verbatim>\<open>get_schedule_page\<close>: no statement of it raises; \<^verbatim>\<open>attr("href")\<close> of an empty
  selection is \<^verbatim>\<open>None\<close> and is passed on as the reference.
\<close>

definition get_schedule_page :: "'e env \<Rightarrow> 'e OmnivoxSession \<Rightarrow> world \<Rightarrow> (exn + page) \<times> world" where
  "get_schedule_page env session w =
     (let schedule_link_node = q_find env ''#ctl00_partOffreServices_offreV2_HOR'' (homepage_d session);
          (pg, w1) = page_init session (q_attr env ''href'' schedule_link_node) w
      in (Inr pg, w1))"

definition get_user_fullname :: "'e env \<Rightarrow> 'e OmnivoxSession \<Rightarrow> string" where
  "get_user_fullname env session = q_text env (q_find env ''#ovx10_user_text'' (homepage_d session))"

definition LOGIN_URL :: string where
  "LOGIN_URL = ''https://vaniercollege.omnivox.ca/intr/Module/Identification/Login/Login.aspx?ReturnUrl=/intr''"

text \<open>
  Lines 237 to 256 of \<^verbatim>\<open>login\<close>: the GET of the login page, the hidden field \<open>k\<close>
  and the POST of the form. Returns both responses.
\<close>

definition login_post ::
  "'e env \<Rightarrow> pystr \<Rightarrow> pystr \<Rightarrow> world \<Rightarrow> (exn + response \<times> response) \<times> world" where
  "login_post env student_id student_password w =
     (case requests_get env LOGIN_URL None w of
        (Inl e, w1) \<Rightarrow> (Inl e, w1)
      | (Inr login_page_response, w1) \<Rightarrow>
     (case html_parse env (body_text login_page_response) of
        Inl e \<Rightarrow> (Inl e, w1)
      | Inr d \<Rightarrow>
     (let k = q_attr env ''value'' (q_find env ''input[name='k']'' d);
          login_form = [(''NoDA'', student_id), (''PasswordEtu'', student_password),
                        (''TypeIdentification'', Some ''Etudiant''), (''k'', k)]
      in (case requests_post env (Some LOGIN_URL) (Some (resp_cookies login_page_response))
                 login_form False w1 of
            (Inl e, w2) \<Rightarrow> (Inl e, w2)
          | (Inr login_post_response, w2) \<Rightarrow> (Inr (login_page_response, login_post_response), w2)))))"

text \<open>
  Lines 261 to 275: the session's jar is the jar of the first response, updated in
  place; then the POST to the landing page and the construction of the session.
\<close>

definition login_finish ::
  "'e env \<Rightarrow> response \<Rightarrow> response \<Rightarrow> world \<Rightarrow> (exn + 'e OmnivoxSession) \<times> world" where
  "login_finish env login_page_response login_post_response w =
     (let cookies = resp_cookies login_page_response;
          w1 = jar_update cookies (resp_cookies login_post_response) w
      in (case requests_post env (Some ''https://vaniercollege.omnivox.ca/intr/'') (Some cookies) [] False w1 of
            (Inl e, w2) \<Rightarrow> (Inl e, w2)
          | (Inr homepage_response, w2) \<Rightarrow>
              let w3 = jar_update cookies (resp_cookies homepage_response) w2
              in (case session_init env cookies (body_text homepage_response) of
                    Inl e \<Rightarrow> (Inl e, w3)
                  | Inr s \<Rightarrow> (Inr s, w3))))"

text \<open>\<^verbatim>\<open>login\<close>: the guard of line 258 is \<^verbatim>\<open>status_code != 302\<close>.\<close>

definition login ::
  "'e env \<Rightarrow> pystr \<Rightarrow> pystr \<Rightarrow> world \<Rightarrow> (exn + 'e OmnivoxSession option) \<times> world" where
  "login env student_id student_password w =
     (case login_post env student_id student_password w of
        (Inl e, w1) \<Rightarrow> (Inl e, w1)
      | (Inr (login_page_response, login_post_response), w1) \<Rightarrow>
          if status_code login_post_response \<noteq> 302 then (Inr None, w1)
          else (case login_finish env login_page_response login_post_response w1 of
                  (Inl e, w2) \<Rightarrow> (Inl e, w2)
                | (Inr s, w2) \<Rightarrow> (Inr (Some s), w2)))"

section \<open>A small portal to run the model on\<close>

text \<open>
  A concrete instance of the collaborators: elements are small trees, the selectors are
  the ones the wrapper uses, and the portal answers by URL. The instances of the theorems
  below are evaluated on it.
\<close>

datatype elem = Elem (el_tag: string) (el_attrs: "(string \<times> string) list") (el_own: string) (el_kids: "elem list")

fun nodes :: "elem \<Rightarrow> elem list" where
  "nodes (Elem t a x ks) = Elem t a x ks # concat (map nodes ks)"

definition below :: "elem \<Rightarrow> elem list" where
  "below e = concat (map nodes (el_kids e))"

definition dom_matches :: "string \<Rightarrow> elem \<Rightarrow> bool" where
  "dom_matches sel e =
     (case sel of
        [] \<Rightarrow> False
      | c # rest \<Rightarrow>
          if c = CHR ''.'' then map_of (el_attrs e) ''class'' = Some rest
          else if c = CHR ''#'' then map_of (el_attrs e) ''id'' = Some rest
          else if sel = ''input[name='k']'' then el_tag e = ''input'' \<and> map_of (el_attrs e) ''name'' = Some ''k''
          else if sel = ''select[name='AnSession']'' then el_tag e = ''select'' \<and> map_of (el_attrs e) ''name'' = Some ''AnSession''
          else el_tag e = sel)"

definition dom_find :: "string \<Rightarrow> elem list \<Rightarrow> elem list" where
  "dom_find sel els =
     (if sel = ''.tbContenantPageLayout table table'' then
        concat (map (\<lambda>c. concat (map (\<lambda>t. filter (dom_matches ''table'') (below t))
                                   (filter (dom_matches ''table'') (below c))))
                    (filter (dom_matches ''.tbContenantPageLayout'') (concat (map nodes els))))
      else filter (dom_matches sel) (concat (map nodes els)))"

definition dom_children :: "string \<Rightarrow> elem list \<Rightarrow> elem list" where
  "dom_children sel els = filter (dom_matches sel) (concat (map el_kids els))"

definition dom_text :: "elem list \<Rightarrow> string" where
  "dom_text els = concat (map el_own (concat (map nodes els)))"

definition dom_val :: "elem list \<Rightarrow> pystr" where
  "dom_val els = (case els of [] \<Rightarrow> None | e # _ \<Rightarrow> map_of (el_attrs e) ''value'')"

definition script_call :: "string \<Rightarrow> jsval" where
  "script_call s =
     JDict [(''type'', JStr ''Program''),
            (''body'', JList [JDict [(''type'', JStr ''ExpressionStatement''),
               (''expression'', JDict [(''type'', JStr ''CallExpression''), (''callee'', JOther),
                  (''arguments'', JList [JDict [(''type'', JStr ''Literal''),
                      (''value'', JStr (takeWhile (\<lambda>c. c \<noteq> CHR 0x27) (drop 1 (dropWhile (\<lambda>c. c \<noteq> CHR 0x27) s))))]])])]])]"

definition dom_js_parse :: "pystr \<Rightarrow> exn + jsval" where
  "dom_js_parse raw = (case raw of None \<Rightarrow> Inl JsSyntaxError | Some s \<Rightarrow> Inr (script_call s))"

definition redirect_doc :: "string \<Rightarrow> elem list" where
  "redirect_doc target = [Elem ''html'' [] [] [Elem ''body'' [(''onload'', ''go('' @ [CHR 0x27] @ target @ [CHR 0x27] @ '')'')] [] []]]"

definition option_el :: "string \<Rightarrow> string \<Rightarrow> bool \<Rightarrow> elem" where
  "option_el v n sel = Elem ''option'' ((''value'', v) # (if sel then [(''selected'', ''selected'')] else [])) n []"

definition selection_doc :: "(string \<times> string) list \<Rightarrow> elem list \<Rightarrow> elem list" where
  "selection_doc form_attrs options =
     [Elem ''html'' [] [] [Elem ''body'' [] []
        [Elem ''form'' form_attrs [] [Elem ''select'' [(''name'', ''AnSession'')] [] options]]]]"

definition cell :: "string \<Rightarrow> string \<Rightarrow> elem" where
  "cell inner txt = Elem ''td'' [] [] [Elem inner [] txt []]"

definition course_row :: "string \<Rightarrow> string \<Rightarrow> string \<Rightarrow> string \<Rightarrow> elem" where
  "course_row n s t who =
     Elem ''tr'' [] [] [Elem ''td'' [] [] [], cell ''span'' n, cell ''span'' s, cell ''span'' t, cell ''a'' who]"

definition plain_row :: elem where
  "plain_row = Elem ''tr'' [] [] [Elem ''td'' [] [] []]"

definition results_doc :: "elem list \<Rightarrow> elem list" where
  "results_doc data_rows =
     [Elem ''div'' [(''class'', ''tbContenantPageLayout'')] []
        [Elem ''table'' [] []
           [Elem ''table'' [] [] [], Elem ''table'' [] [] [], Elem ''table'' [] [] [],
            Elem ''table'' [] [] ([plain_row, plain_row, plain_row] @ data_rows @ [plain_row])]]]"

definition no_results_doc :: "elem list" where
  "no_results_doc = [Elem ''div'' [(''class'', ''tbAvertissement'')] ''No schedule'' []]"

definition home_doc :: "bool \<Rightarrow> elem list" where
  "home_doc with_link =
     [Elem ''html'' [] [] [Elem ''body'' [] []
        ((if with_link then [Elem ''a'' [(''id'', ''ctl00_partOffreServices_offreV2_HOR''), (''href'', ''/intr/hor'')] ''Schedule'' []] else [])
         @ [Elem ''span'' [(''id'', ''ovx10_user_text'')] ''Jane Doe'' []])]]"

definition login_doc :: "elem list" where
  "login_doc = [Elem ''html'' [] [] [Elem ''body'' [] []
      [Elem ''form'' [] [] [Elem ''input'' [(''name'', ''k''), (''value'', ''tok'')] [] []]]]]"

record site =
  login_status :: int
  home_page :: "elem list"
  selection_page :: "elem list"
  results_page :: "elem list"

definition site_transport :: "request list \<Rightarrow> request \<Rightarrow> exn + answer" where
  "site_transport hist r =
     (let u = url r in
      if u = LOGIN_URL then
        (if http_method r = ''GET'' then Inr \<lparr>ans_status = 200, ans_text = ''L'', ans_cookies = [''sid'' \<mapsto> ''1'']\<rparr>
         else Inr \<lparr>ans_status = 200, ans_text = ''P'', ans_cookies = [''auth'' \<mapsto> ''2'']\<rparr>)
      else if u = ''https://vaniercollege.omnivox.ca/intr/'' then
        Inr \<lparr>ans_status = 200, ans_text = ''H'', ans_cookies = [''home'' \<mapsto> ''3'']\<rparr>
      else if u = VANIER_DOMAIN @ ''/intr/hor'' then
        Inr \<lparr>ans_status = 200, ans_text = ''B'', ans_cookies = Map.empty\<rparr>
      else if u = LEA_DOMAIN @ ''/load.ovx'' then
        Inr \<lparr>ans_status = 200, ans_text = [], ans_cookies = [''lea'' \<mapsto> ''4'']\<rparr>
      else if u = LEA_DOMAIN @ ''/hrre/horaire.ovx'' then
        Inr \<lparr>ans_status = 200, ans_text = ''S'', ans_cookies = Map.empty\<rparr>
      else if u = LEA_DOMAIN @ ''/hrre/ask.ovx'' then
        Inr \<lparr>ans_status = 200, ans_text = ''A'', ans_cookies = Map.empty\<rparr>
      else if u = LEA_DOMAIN @ ''/hrre/result.ovx'' then
        Inr \<lparr>ans_status = 200, ans_text = ''R'', ans_cookies = Map.empty\<rparr>
      else Inl RequestException)"

definition site_parse :: "site \<Rightarrow> string \<Rightarrow> exn + elem list" where
  "site_parse s body =
     (if body = ''L'' then Inr login_doc
      else if body = ''H'' then Inr (home_page s)
      else if body = ''B'' then Inr (redirect_doc ''load.ovx'')
      else if body = ''S'' then Inr (selection_page s)
      else if body = ''A'' then Inr (redirect_doc ''result.ovx'')
      else if body = ''R'' then Inr (results_page s)
      else Inl ParserError)"

definition site_env :: "site \<Rightarrow> elem env" where
  "site_env s =
     \<lparr>transport = (\<lambda>hist r. case site_transport hist r of
                       Inl e \<Rightarrow> Inl e
                     | Inr a \<Rightarrow> if url r = LOGIN_URL \<and> http_method r = ''POST''
                                then Inr (a\<lparr>ans_status := login_status s\<rparr>) else Inr a),
      html_parse = site_parse s,
      q_find = dom_find, q_children = dom_children,
      el_get = (\<lambda>e name. map_of (el_attrs e) name),
      q_text = dom_text, q_val = dom_val, js_parse = dom_js_parse\<rparr>"

definition world0 :: world where
  "world0 = \<lparr>jars = (\<lambda>_. Map.empty), next_addr = 0, sent = []\<rparr>"

definition site1 :: site where
  "site1 = \<lparr>login_status = 302, home_page = home_doc True,
     selection_page = selection_doc [(''action'', ''ask.ovx'')] [option_el ''20181'' ''Fall 2018'' True, option_el ''20173'' ''Winter 2018'' False],
     results_page = results_doc [course_row ''345-102-MQ'' ''00001'' ''Intro to X'' ''Jane Doe'']\<rparr>"

text \<open>A session whose jar is at address 0, and the page made from it.\<close>

definition session0 :: "elem OmnivoxSession" where
  "session0 = \<lparr>sess_cookies = 0, homepage_html = ''H'', homepage_d = home_doc True\<rparr>"

definition world1 :: world where
  "world1 = \<lparr>jars = (\<lambda>_. Map.empty)(0 := [''sid'' \<mapsto> ''1'']), next_addr = 1, sent = []\<rparr>"

definition page0 :: page where
  "page0 = \<lparr>page_cookies = 1, schedule_reference = Some ''/intr/hor'', priv_semesters = None,
             priv_schedule_cache = Map.empty, priv_schedule_request_url = None\<rparr>"

definition world2 :: world where
  "world2 = snd (get_schedule_page (site_env site1) session0 world1)"

text \<open>Further portals, pages and semesters for the instances below.\<close>

definition fall :: OmnivoxSemester where
  "fall = \<lparr>semester_id = Some ''20181'', semester_name = ''Fall 2018'', current = True\<rparr>"

definition winter :: OmnivoxSemester where
  "winter = \<lparr>semester_id = Some ''20173'', semester_name = ''Winter 2018'', current = False\<rparr>"

definition intro_course :: OmnivoxSemesterScheduleCourse where
  "intro_course = \<lparr>number = ''345-102-MQ'', section_no = ''00001'', title = ''Intro to X'', teacher = ''Jane Doe''\<rparr>"

definition pageD :: page where
  "pageD = \<lparr>page_cookies = 1, schedule_reference = Some ''/intr/hor'',
             priv_semesters = Some [fall, winter], priv_schedule_cache = Map.empty,
             priv_schedule_request_url = Some ''https://vaniercollege-estd.omnivox.ca/estd/hrre/ask.ovx''\<rparr>"

definition worldD :: world where
  "worldD = snd (snd (fetch (site_env site1) page0 world2))"

definition site_moved :: site where
  "site_moved = site1\<lparr>login_status := 301\<rparr>"

definition site_denied :: site where
  "site_denied = site1\<lparr>login_status := 200\<rparr>"

definition site_empty :: site where
  "site_empty = site1\<lparr>selection_page := selection_doc [(''action'', ''ask.ovx'')] []\<rparr>"

definition site_noaction :: site where
  "site_noaction = site1\<lparr>selection_page :=
     selection_doc [] [option_el ''20181'' ''Fall 2018'' True, option_el ''20173'' ''Winter 2018'' False]\<rparr>"

definition site_two :: site where
  "site_two = site1\<lparr>selection_page :=
     selection_doc [(''action'', ''ask.ovx'')]
       [option_el ''20181'' ''Fall 2018'' True, option_el ''20173'' ''Winter 2018'' True]\<rparr>"

definition site_none :: site where
  "site_none = site1\<lparr>results_page := no_results_doc\<rparr>"

definition short_row_doc :: "elem list" where
  "short_row_doc = results_doc [Elem ''tr'' [] [] [Elem ''td'' [] [] [], cell ''span'' ''345-102-MQ'']]"

definition two_course_doc :: "elem list" where
  "two_course_doc = results_doc [course_row ''345-102-MQ'' ''00001'' ''Intro to X'' ''Jane Doe'',
                                 course_row ''201-NYA-05'' ''00002'' ''Calculus I'' ''John Roe'']"

definition calculus_course :: OmnivoxSemesterScheduleCourse where
  "calculus_course = \<lparr>number = ''201-NYA-05'', section_no = ''00002'', title = ''Calculus I'', teacher = ''John Roe''\<rparr>"

definition world_denied :: world where
  "world_denied = snd (login_post (site_env site_denied) (Some ''1234567'') (Some ''secret'') world0)"

definition world_posted :: world where
  "world_posted = snd (login_post (site_env site1) (Some ''1234567'') (Some ''secret'') world0)"

definition session1 :: "elem OmnivoxSession" where
  "session1 = \<lparr>sess_cookies = 0, homepage_html = ''H'', homepage_d = home_doc True\<rparr>"

definition schedF :: OmnivoxSemesterSchedule where
  "schedF = \<lparr>semester = fall, courses = [intro_course]\<rparr>"

definition pageF :: page where
  "pageF = pageD\<lparr>priv_schedule_cache := (priv_schedule_cache pageD)(semester_id fall \<mapsto> schedF)\<rparr>"

definition worldF :: world where
  "worldF = snd (snd (get_schedule (site_env site1) pageD fall False worldD))"

definition autumn :: OmnivoxSemester where
  "autumn = \<lparr>semester_id = Some ''20181'', semester_name = ''Autumn'', current = False\<rparr>"

definition summer99 :: OmnivoxSemester where
  "summer99 = \<lparr>semester_id = Some ''19992'', semester_name = ''Summer 1999'', current = False\<rparr>"

definition world99 :: world where
  "world99 = snd (snd (get_schedule (site_env site1) pageD summer99 False worldD))"

definition pageE :: page where
  "pageE = page0\<lparr>priv_semesters := Some [],
             priv_schedule_request_url := Some ''https://vaniercollege-estd.omnivox.ca/estd/hrre/ask.ovx''\<rparr>"

definition worldE :: world where
  "worldE = snd (snd (get_all_semesters (site_env site_empty) page0 world2))"

definition world_noaction :: world where
  "world_noaction = snd (load_selection_document (site_env site_noaction) page0 world2)"

definition world_selection :: world where
  "world_selection = snd (load_selection_document (site_env site1) page0 world2)"

definition world_none :: world where
  "world_none = snd (load_results_page (site_env site_none) pageD fall worldD)"

definition session_nolink :: "elem OmnivoxSession" where
  "session_nolink = \<lparr>sess_cookies = 0, homepage_html = ''H'', homepage_d = home_doc False\<rparr>"

definition page_noref :: page where
  "page_noref = \<lparr>page_cookies = 1, schedule_reference = None, priv_semesters = None,
                 priv_schedule_cache = Map.empty, priv_schedule_request_url = None\<rparr>"

definition site_short :: site where
  "site_short = site1\<lparr>results_page := short_row_doc\<rparr>"

definition site_updated :: site where
  "site_updated = site1\<lparr>results_page := two_course_doc\<rparr>"



definition schedU :: OmnivoxSemesterSchedule where
  "schedU = \<lparr>semester = fall, courses = [intro_course, calculus_course]\<rparr>"



definition pageEc :: page where
  "pageEc = pageE\<lparr>priv_schedule_cache := (priv_schedule_cache pageE)(semester_id fall \<mapsto> schedF)\<rparr>"



definition pageN :: page where
  "pageN = page0\<lparr>priv_semesters := Some [fall, winter]\<rparr>"

section \<open>Frame lemmas: which jars an operation can change\<close>

lemma jar_update_simps:
  "next_addr (jar_update a b w) = next_addr w"
  "sent (jar_update a b w) = sent w"
  "x \<noteq> a \<Longrightarrow> jars (jar_update a b w) x = jars w x"
  by (simp_all add: jar_update_def)

lemma requests_send_frame:
  assumes "requests_send env m u c d r w = (res, w')" and "a < next_addr w"
  shows "a < next_addr w' \<and> jars w' a = jars w a"
  using assms
  by (auto simp: requests_send_def new_jar_def Let_def split: option.splits sum.splits)

lemma requests_send_sent:
  assumes "requests_send env m (Some u) c d r w = (res, w')"
  shows "sent w' = sent w @ [\<lparr>http_method = m, url = u, headers = HEADER_UA,
            sent_cookies = (case c of None \<Rightarrow> Map.empty | Some a \<Rightarrow> jars w a),
            form_data = d, allow_redirects = r\<rparr>]"
  using assms
  by (auto simp: requests_send_def new_jar_def Let_def split: option.splits sum.splits)

lemma requests_get_frame:
  assumes "requests_get env u c w = (res, w')" and "a < next_addr w"
  shows "a < next_addr w' \<and> jars w' a = jars w a"
  using assms unfolding requests_get_def by (rule requests_send_frame)

lemma requests_post_frame:
  assumes "requests_post env u c d r w = (res, w')" and "a < next_addr w"
  shows "a < next_addr w' \<and> jars w' a = jars w a"
  using assms unfolding requests_post_def by (rule requests_send_frame)

lemma load_selection_document_frame:
  assumes "load_selection_document env p w = (res, w')" and "a < next_addr w" and "a \<noteq> page_cookies p"
  shows "a < next_addr w' \<and> jars w' a = jars w a"
  using assms
  unfolding load_selection_document_def Let_def
  by (auto split: sum.splits prod.splits simp: jar_update_simps dest!: requests_get_frame[where a=a])

lemma load_results_page_frame:
  assumes "load_results_page env p sem w = (res, w')" and "a < next_addr w"
  shows "a < next_addr w' \<and> jars w' a = jars w a"
  using assms
  unfolding load_results_page_def
  by (auto split: sum.splits prod.splits
           dest!: requests_get_frame[where a=a] requests_post_frame[where a=a])

lemma fetch_frame:
  assumes "fetch env p w = (res, p', w')" and "a < next_addr w" and "a \<noteq> page_cookies p"
  shows "a < next_addr w' \<and> jars w' a = jars w a"
  using assms
  unfolding fetch_def Let_def
  by (auto split: sum.splits prod.splits dest!: load_selection_document_frame[where a=a])

lemma fetch_page_cookies:
  assumes "fetch env p w = (res, p', w')"
  shows "page_cookies p' = page_cookies p \<and> schedule_reference p' = schedule_reference p
         \<and> priv_schedule_cache p' = priv_schedule_cache p"
  using assms
  unfolding fetch_def Let_def
  by (auto split: sum.splits prod.splits)

lemma fetch_if_needed_frame:
  assumes "fetch_if_needed env p w = (res, p', w')" and "a < next_addr w" and "a \<noteq> page_cookies p"
  shows "a < next_addr w' \<and> jars w' a = jars w a"
  using assms fetch_frame[of env p w res p' w' a]
  unfolding fetch_if_needed_def
  by (auto split: if_splits)

lemma fetch_if_needed_page_cookies:
  assumes "fetch_if_needed env p w = (res, p', w')"
  shows "page_cookies p' = page_cookies p \<and> schedule_reference p' = schedule_reference p
         \<and> priv_schedule_cache p' = priv_schedule_cache p"
  using assms fetch_page_cookies[of env p w res p' w']
  unfolding fetch_if_needed_def
  by (auto split: if_splits)

lemma get_current_semester_frame:
  assumes "get_current_semester env p w = (res, p', w')" and "a < next_addr w" and "a \<noteq> page_cookies p"
  shows "a < next_addr w' \<and> jars w' a = jars w a \<and> page_cookies p' = page_cookies p"
  using assms
  unfolding get_current_semester_def
  by (auto split: sum.splits prod.splits option.splits
           dest: fetch_if_needed_frame[where a=a] fetch_if_needed_page_cookies)

lemma get_all_semesters_frame:
  assumes "get_all_semesters env p w = (res, p', w')" and "a < next_addr w" and "a \<noteq> page_cookies p"
  shows "a < next_addr w' \<and> jars w' a = jars w a \<and> page_cookies p' = page_cookies p"
  using assms
  unfolding get_all_semesters_def
  by (auto split: sum.splits prod.splits option.splits
           dest: fetch_if_needed_frame[where a=a] fetch_if_needed_page_cookies)

lemma get_schedule_frame:
  assumes "get_schedule env p sem force w = (res, p', w')" and "a < next_addr w" and "a \<noteq> page_cookies p"
  shows "a < next_addr w' \<and> jars w' a = jars w a \<and> page_cookies p' = page_cookies p"
proof -
  obtain r1 p1 w1 where f: "fetch_if_needed env p w = (r1, p1, w1)"
    by (cases "fetch_if_needed env p w") auto
  have a1: "a < next_addr w1 \<and> jars w1 a = jars w a"
    using fetch_if_needed_frame[OF f assms(2,3)] .
  have c1: "page_cookies p1 = page_cookies p"
    using fetch_if_needed_page_cookies[OF f] by simp
  obtain r2 w2 where l: "load_results_page env p1 sem w1 = (r2, w2)"
    by (cases "load_results_page env p1 sem w1") auto
  have a2: "a < next_addr w2 \<and> jars w2 a = jars w1 a"
    using load_results_page_frame[OF l] a1 by simp
  show ?thesis
    using assms(1) f l a1 a2 c1
    unfolding get_schedule_def Let_def
    by (auto split: sum.splits option.splits if_splits)
qed

lemma page_init_props:
  assumes "page_init session ref w = (pg, w')" and "sess_cookies session < next_addr w"
  shows "page_cookies pg = next_addr w"
    and "next_addr w' = Suc (next_addr w)"
    and "jars w' (page_cookies pg) = jars w (sess_cookies session)"
    and "jars w' (sess_cookies session) = jars w (sess_cookies session)"
    and "sent w' = sent w"
    and "schedule_reference pg = ref"
    and "priv_semesters pg = None"
    and "priv_schedule_request_url pg = None"
    and "priv_schedule_cache pg = Map.empty"
  using assms
  unfolding page_init_def new_jar_def jar_update_def Let_def
  by auto

section \<open>What the operations send and store\<close>

lemma requests_send_None:
  "requests_send env m None c d r w = (Inl MissingSchema, w)"
  by (simp add: requests_send_def)

lemma login_post_sent:
  assumes "login_post env sid pw w = (Inr (r1, r2), w1)"
  shows "length (sent w1) = length (sent w) + 2"
proof -
  obtain a wa where g: "requests_get env LOGIN_URL None w = (a, wa)"
    by (cases "requests_get env LOGIN_URL None w") auto
  have sa: "length (sent wa) = length (sent w) + 1"
    using requests_send_sent[OF g[unfolded requests_get_def]] by simp
  show ?thesis
    using assms g sa
    unfolding login_post_def Let_def requests_post_def
    by (auto split: sum.splits prod.splits dest!: requests_send_sent)
qed

lemma fetch_if_needed_skip:
  assumes "priv_semesters p = Some (s0 # ss)"
  shows "fetch_if_needed env p w = (Inr (), p, w)"
  using assms by (simp add: fetch_if_needed_def py_not_def)

lemma load_results_page_sent:
  assumes "load_results_page env p sem w = (res, w')"
  shows "(priv_schedule_request_url p = None \<longrightarrow> w' = w \<and> res = Inl MissingSchema)
       \<and> (\<forall>u. priv_schedule_request_url p = Some u \<longrightarrow>
            (\<exists>rest. sent w' = sent w @ \<lparr>http_method = ''POST'', url = u, headers = HEADER_UA,
                        sent_cookies = jars w (page_cookies p), form_data = schedule_form sem,
                        allow_redirects = True\<rparr> # rest \<and> length rest \<le> 1))"
proof -
  have none: "w' = w \<and> res = Inl MissingSchema" if "priv_schedule_request_url p = None"
    using assms that by (simp add: load_results_page_def requests_post_def requests_send_None)
  have some: "\<exists>rest. sent w' = sent w @ \<lparr>http_method = ''POST'', url = u, headers = HEADER_UA,
                        sent_cookies = jars w (page_cookies p), form_data = schedule_form sem,
                        allow_redirects = True\<rparr> # rest \<and> length rest \<le> 1"
    if u: "priv_schedule_request_url p = Some u" for u
  proof -
    let ?post = "\<lparr>http_method = ''POST'', url = u, headers = HEADER_UA,
                   sent_cookies = jars w (page_cookies p), form_data = schedule_form sem,
                   allow_redirects = True\<rparr>"
    obtain a wa where g: "requests_send env ''POST'' (Some u) (Some (page_cookies p)) (schedule_form sem) True w = (a, wa)"
      by (cases "requests_send env ''POST'' (Some u) (Some (page_cookies p)) (schedule_form sem) True w") auto
    have sa: "sent wa = sent w @ [?post]"
      using requests_send_sent[OF g] by simp
    show ?thesis
      using assms g sa u
      unfolding load_results_page_def requests_post_def requests_get_def
      by (auto split: sum.splits prod.splits dest!: requests_send_sent)
  qed
  show ?thesis using none some by blast
qed

lemma get_schedule_hit:
  assumes "fetch_if_needed env p w = (Inr (), p1, w1)"
      and "priv_schedule_cache p1 (semester_id sem) = Some c"
  shows "get_schedule env p sem False w = (Inr c, p1, w1)"
  using assms by (simp add: get_schedule_def)

lemma get_schedule_miss:
  assumes "fetch_if_needed env p w = (Inr (), p1, w1)"
      and "force \<or> priv_schedule_cache p1 (semester_id sem) = None"
  shows "get_schedule env p sem force w =
     (case load_results_page env p1 sem w1 of
        (Inl e, w2) \<Rightarrow> (Inl e, p1, w2)
      | (Inr d, w2) \<Rightarrow>
          (case translate_table env d of
             Inl e \<Rightarrow> (Inl e, p1, w2)
           | Inr cs \<Rightarrow>
               (Inr \<lparr>semester = sem, courses = cs\<rparr>,
                p1\<lparr>priv_schedule_cache :=
                     (priv_schedule_cache p1)(semester_id sem \<mapsto> \<lparr>semester = sem, courses = cs\<rparr>)\<rparr>,
                w2)))"
  using assms by (auto simp: get_schedule_def Let_def split: sum.splits prod.splits)

lemma get_schedule_miss_facts:
  assumes f: "fetch_if_needed env p w = (Inr (), p1, w1)"
      and m: "force \<or> priv_schedule_cache p1 (semester_id sem) = None"
      and u: "priv_schedule_request_url p1 = Some u"
      and g: "get_schedule env p sem force w = (r, p', w')"
  shows "\<exists>rest. sent w' = sent w1 @ \<lparr>http_method = ''POST'', url = u, headers = HEADER_UA,
                        sent_cookies = jars w1 (page_cookies p1), form_data = schedule_form sem,
                        allow_redirects = True\<rparr> # rest \<and> length rest \<le> 1"
    and "r = Inr sch \<Longrightarrow> semester sch = sem
           \<and> p' = p1\<lparr>priv_schedule_cache := (priv_schedule_cache p1)(semester_id sem \<mapsto> sch)\<rparr>"
    and "r = Inl e \<Longrightarrow> p' = p1"
proof -
  obtain r2 w2 where l: "load_results_page env p1 sem w1 = (r2, w2)"
    by (cases "load_results_page env p1 sem w1") auto
  note e = get_schedule_miss[OF f m, unfolded g l]
  have w: "w' = w2" using e by (cases r2) (auto split: sum.splits)
  show "\<exists>rest. sent w' = sent w1 @ \<lparr>http_method = ''POST'', url = u, headers = HEADER_UA,
                        sent_cookies = jars w1 (page_cookies p1), form_data = schedule_form sem,
                        allow_redirects = True\<rparr> # rest \<and> length rest \<le> 1"
    using load_results_page_sent[OF l] u w by blast
  show "r = Inr sch \<Longrightarrow> semester sch = sem
           \<and> p' = p1\<lparr>priv_schedule_cache := (priv_schedule_cache p1)(semester_id sem \<mapsto> sch)\<rparr>"
    using e by (cases r2) (auto split: sum.splits)
  show "r = Inl e \<Longrightarrow> p' = p1" for e
    using e by (cases r2) (auto split: sum.splits)
qed

lemma get_schedule_miss_result:
  assumes f: "fetch_if_needed env p w = (Inr (), p1, w1)"
      and m: "force \<or> priv_schedule_cache p1 (semester_id sem) = None"
      and g: "get_schedule env p sem force w = (r, p', w')"
  shows "r = Inr sch \<Longrightarrow>
           \<exists>d. load_results_page env p1 sem w1 = (Inr d, w') \<and> translate_table env d = Inr (courses sch)"
proof -
  obtain r2 w2 where l: "load_results_page env p1 sem w1 = (r2, w2)"
    by (cases "load_results_page env p1 sem w1") auto
  note e = get_schedule_miss[OF f m, unfolded g l]
  show "r = Inr sch \<Longrightarrow>
           \<exists>d. load_results_page env p1 sem w1 = (Inr d, w') \<and> translate_table env d = Inr (courses sch)"
    using e l by (cases r2) (auto split: sum.splits)
qed

lemma get_schedule_without_url:
  assumes f: "fetch_if_needed env p w = (Inr (), p1, w1)"
      and m: "force \<or> priv_schedule_cache p1 (semester_id sem) = None"
      and u: "priv_schedule_request_url p1 = None"
  shows "get_schedule env p sem force w = (Inl MissingSchema, p1, w1)"
proof -
  have l: "load_results_page env p1 sem w1 = (Inl MissingSchema, w1)"
    using u by (simp add: load_results_page_def requests_post_def requests_send_None)
  show ?thesis using get_schedule_miss[OF f m] l by simp
qed

lemma get_schedule_discovery_fails:
  assumes "fetch_if_needed env p w = (Inl e, p1, w1)"
  shows "get_schedule env p sem force w = (Inl e, p1, w1)"
  using assms by (simp add: get_schedule_def)

lemma fetch_world:
  "snd (snd (fetch env p w)) = snd (load_selection_document env p w)"
  by (simp add: fetch_def Let_def split: prod.splits sum.splits)

lemma fetch_without_reference:
  assumes "schedule_reference pg = None"
  shows "fetch env pg w = (Inl TypeError, pg, w)"
proof -
  have "load_selection_document env pg w = (Inl TypeError, w)"
    using assms by (simp add: load_selection_document_def py_add_def)
  then show ?thesis by (simp add: fetch_def)
qed

lemma fetch_ok_semesters:
  assumes "fetch env p w = (Inr x, p', w')"
  shows "\<exists>sems. priv_semesters p' = Some sems"
  using assms unfolding fetch_def Let_def
  by (auto split: sum.splits prod.splits)

lemma fetch_if_needed_ok_semesters:
  assumes "fetch_if_needed env p w = (Inr x, p', w')"
  shows "\<exists>sems. priv_semesters p' = Some sems"
proof (cases "py_not (priv_semesters p)")
  case True
  then have "fetch env p w = (Inr x, p', w')" using assms by (simp add: fetch_if_needed_def)
  then show ?thesis by (rule fetch_ok_semesters)
next
  case False
  then have "p' = p" using assms by (simp add: fetch_if_needed_def)
  then show ?thesis using False by (cases "priv_semesters p") (simp_all add: py_not_def)
qed

lemma get_current_semester_ok_semesters:
  assumes "get_current_semester env p w = (Inr x, p', w')"
  shows "\<exists>sems. priv_semesters p' = Some sems"
  using assms unfolding get_current_semester_def
  by (auto split: sum.splits prod.splits option.splits)

lemma get_all_semesters_ok_semesters:
  assumes "get_all_semesters env p w = (Inr x, p', w')"
  shows "\<exists>sems. priv_semesters p' = Some sems"
  using assms unfolding get_all_semesters_def
  by (auto split: sum.splits prod.splits option.splits)

lemma get_schedule_ok_semesters:
  assumes "get_schedule env p sem force w = (Inr x, p', w')"
  shows "\<exists>sems. priv_semesters p' = Some sems"
proof -
  obtain r1 p1 w1 where f: "fetch_if_needed env p w = (r1, p1, w1)"
    by (cases "fetch_if_needed env p w") auto
  have r1: "r1 = Inr ()"
    using assms f by (cases r1) (auto simp: get_schedule_def)
  have s1: "\<exists>sems. priv_semesters p1 = Some sems"
    using fetch_if_needed_ok_semesters f r1 by blast
  have "priv_semesters p' = priv_semesters p1"
    using assms f r1 unfolding get_schedule_def Let_def
    by (auto split: sum.splits prod.splits option.splits if_splits)
  then show ?thesis using s1 by simp
qed

lemma get_schedule_known:
  assumes sems: "priv_semesters p = Some (s0 # ss)"
      and g: "get_schedule env p sem force v = (r, p', v')"
  shows "priv_semesters p' = priv_semesters p
       \<and> priv_schedule_request_url p' = priv_schedule_request_url p
       \<and> (sent v' = sent v
          \<or> (\<exists>post rest. sent v' = sent v @ post # rest \<and> http_method post = ''POST''
                \<and> form_data post = schedule_form sem \<and> length rest \<le> 1))"
proof -
  have f: "fetch_if_needed env p v = (Inr (), p, v)"
    using sems by (rule fetch_if_needed_skip)
  show ?thesis
  proof (cases "force \<or> priv_schedule_cache p (semester_id sem) = None")
    case False
    then obtain c where c: "priv_schedule_cache p (semester_id sem) = Some c" and nf: "\<not> force"
      by auto
    have "get_schedule env p sem force v = (Inr c, p, v)"
      using get_schedule_hit[OF f c] nf by simp
    then show ?thesis using g by simp
  next
    case True
    obtain r2 w2 where l: "load_results_page env p sem v = (r2, w2)"
      by (cases "load_results_page env p sem v") auto
    note e = get_schedule_miss[OF f True, unfolded g l]
    have w: "v' = w2" using e by (cases r2) (auto split: sum.splits)
    have pp: "priv_semesters p' = priv_semesters p
       \<and> priv_schedule_request_url p' = priv_schedule_request_url p"
      using e by (cases r2) (auto split: sum.splits)
    have snt: "sent v' = sent v
          \<or> (\<exists>post rest. sent v' = sent v @ post # rest \<and> http_method post = ''POST''
                \<and> form_data post = schedule_form sem \<and> length rest \<le> 1)"
    proof (cases "priv_schedule_request_url p")
      case None
      then show ?thesis using load_results_page_sent[OF l] w by simp
    next
      case (Some u)
      then obtain rest where
        "sent v' = sent v @ \<lparr>http_method = ''POST'', url = u, headers = HEADER_UA,
                        sent_cookies = jars v (page_cookies p), form_data = schedule_form sem,
                        allow_redirects = True\<rparr> # rest \<and> length rest \<le> 1"
        using load_results_page_sent[OF l] w by blast
      then have "\<exists>post rest. sent v' = sent v @ post # rest \<and> http_method post = ''POST''
                \<and> form_data post = schedule_form sem \<and> length rest \<le> 1"
        by (intro exI[of _ "\<lparr>http_method = ''POST'', url = u, headers = HEADER_UA,
                        sent_cookies = jars v (page_cookies p), form_data = schedule_form sem,
                        allow_redirects = True\<rparr>"] exI[of _ rest]) simp
      then show ?thesis by (rule disjI2)
    qed
    show ?thesis using pp snt by (intro conjI) simp_all
  qed
qed

lemma collect_all_ok:
  assumes "\<And>x. x \<in> set xs \<Longrightarrow> f x = Inr (g x)"
  shows "collect f xs = Inr (map g xs)"
  using assms by (induction xs) simp_all

lemma course_of_row_ok:
  assumes "5 \<le> length (q_children env ''td'' [row])"
  shows "course_of_row env row =
     Inr \<lparr>number = q_text env (q_find env ''span'' [q_children env ''td'' [row] ! 1]),
          section_no = q_text env (q_find env ''span'' [q_children env ''td'' [row] ! 2]),
          title = q_text env (q_find env ''span'' [q_children env ''td'' [row] ! 3]),
          teacher = q_text env (q_find env ''a'' [q_children env ''td'' [row] ! 4])\<rparr>"
  using assms by (simp add: course_of_row_def q_index_def and_then_def Let_def)

section \<open>The model run on the small portal\<close>

lemma page0_made: "fst (get_schedule_page (site_env site1) session0 world1) = Inr page0"
  by (simp add: get_schedule_page_def page_init_def new_jar_def jar_update_def session0_def world1_def
        page0_def site_env_def q_attr_def dom_find_def dom_matches_def home_doc_def Let_def)

lemmas model_defs =
  py_add_def new_jar_def jar_update_def q_attr_def q_index_def HEADER_UA_def VANIER_DOMAIN_def
  LEA_DOMAIN_def requests_send_def requests_get_def requests_post_def js_key_def js_first_def
  and_then_def get_js_redirect_def py_add_js_def page_init_def load_selection_document_def
  semester_options_def semester_of_option_def parse_semesters_def fetch_def py_not_def
  fetch_if_needed_def get_current_semester_def get_all_semesters_def schedule_form_def
  load_results_page_def course_of_row_def translate_table_def get_schedule_def session_init_def
  get_schedule_page_def get_user_fullname_def LOGIN_URL_def login_post_def login_finish_def
  login_def Let_def

lemmas site_defs =
  below_def dom_matches_def dom_find_def dom_children_def dom_text_def dom_val_def script_call_def
  dom_js_parse_def redirect_doc_def option_el_def selection_doc_def cell_def course_row_def
  plain_row_def results_doc_def no_results_doc_def home_doc_def login_doc_def site_transport_def
  site_parse_def site_env_def world0_def site1_def session0_def world1_def page0_def world2_def
  fall_def winter_def intro_course_def pageD_def worldD_def site_moved_def site_denied_def
  site_empty_def site_noaction_def site_two_def site_none_def short_row_doc_def two_course_doc_def
  calculus_course_def session1_def schedF_def autumn_def summer99_def pageE_def
  session_nolink_def page_noref_def site_short_def site_updated_def schedU_def pageEc_def
  pageN_def

lemma fetch_site1: "fetch (site_env site1) page0 world2 = (Inr (), pageD, worldD)"
proof -
  have "fst (fetch (site_env site1) page0 world2) = Inr ()"
    by (simp add: model_defs site_defs)
  moreover have "fst (snd (fetch (site_env site1) page0 world2)) = pageD"
    by (simp add: model_defs site_defs)
  ultimately show ?thesis unfolding worldD_def by (simp add: prod_eq_iff)
qed

lemma sent_worldD: "map url (sent worldD) =
   [''https://vaniercollege.omnivox.ca/intr/hor'',
    ''https://vaniercollege-estd.omnivox.ca/estd/load.ovx'',
    ''https://vaniercollege-estd.omnivox.ca/estd/hrre/horaire.ovx'']"
  by (simp add: model_defs site_defs)

lemma get_schedule_fall: 
  "fst (get_schedule (site_env site1) pageD fall False worldD) = Inr \<lparr>semester = fall, courses = [intro_course]\<rparr>"
  by (simp add: model_defs site_defs)

lemma pair_from_fst: "fst x = a \<Longrightarrow> x = (a, snd x)"
  by (simp add: prod_eq_iff)

lemma triple_from_fst: "fst x = a \<Longrightarrow> fst (snd x) = b \<Longrightarrow> x = (a, b, snd (snd x))"
  by (simp add: prod_eq_iff)

lemma login_post_denied:
  "fst (login_post (site_env site_denied) (Some ''1234567'') (Some ''secret'') world0)
     = Inr (\<lparr>status_code = 200, body_text = ''L'', resp_cookies = 0\<rparr>,
            \<lparr>status_code = 200, body_text = ''P'', resp_cookies = 1\<rparr>)"
  by (simp add: model_defs site_defs)

lemma login_post_granted:
  "fst (login_post (site_env site1) (Some ''1234567'') (Some ''secret'') world0)
     = Inr (\<lparr>status_code = 200, body_text = ''L'', resp_cookies = 0\<rparr>,
            \<lparr>status_code = 302, body_text = ''P'', resp_cookies = 1\<rparr>)"
  by (simp add: model_defs site_defs)

lemma login_finish_granted:
  "fst (login_finish (site_env site1) \<lparr>status_code = 200, body_text = ''L'', resp_cookies = 0\<rparr>
          \<lparr>status_code = 302, body_text = ''P'', resp_cookies = 1\<rparr> world_posted) = Inr session1"
  by (simp add: model_defs site_defs world_posted_def)

lemma pageD_discovered:
  "priv_semesters pageD = Some (fall # [winter])"
  "priv_schedule_request_url pageD = Some ''https://vaniercollege-estd.omnivox.ca/estd/hrre/ask.ovx''"
  "priv_schedule_cache pageD (semester_id fall) = None"
  "priv_schedule_cache pageD (semester_id summer99) = None"
  by (simp_all add: pageD_def)

lemma pageF_discovered:
  "priv_semesters pageF = Some (fall # [winter])"
  "priv_schedule_request_url pageF = Some ''https://vaniercollege-estd.omnivox.ca/estd/hrre/ask.ovx''"
  "priv_schedule_cache pageF (semester_id fall) = Some schedF"
  "priv_schedule_cache pageF (semester_id autumn) = Some schedF"
  by (simp_all add: pageF_def pageD_def fall_def autumn_def)

lemma get_schedule_fall_result:
  "fst (get_schedule (site_env site1) pageD fall False worldD) = Inr schedF"
  unfolding schedF_def by (rule get_schedule_fall)

lemma load_noaction:
  "fst (load_selection_document (site_env site_noaction) page0 world2) = Inr (selection_page site_noaction)"
  by (simp add: model_defs site_defs)

lemma load_site1:
  "fst (load_selection_document (site_env site1) page0 world2) = Inr (selection_page site1)"
  by (simp add: model_defs site_defs)

lemma noaction_facts:
  "q_attr (site_env site_noaction) ''action'' (q_find (site_env site_noaction) ''form'' (selection_page site_noaction)) = None"
  "parse_semesters (site_env site_noaction) (selection_page site_noaction) = [fall, winter]"
  by (simp_all add: model_defs site_defs)

lemma site1_selection_facts:
  "q_attr (site_env site1) ''action'' (q_find (site_env site1) ''form'' (selection_page site1)) = Some ''ask.ovx''"
  "parse_semesters (site_env site1) (selection_page site1) = [fall, winter]"
  by (simp_all add: model_defs site_defs)

lemma empty_first:
  "fst (get_all_semesters (site_env site_empty) page0 world2) = Inr []"
  "fst (snd (get_all_semesters (site_env site_empty) page0 world2)) = pageE"
  by (simp_all add: model_defs site_defs)

lemma empty_first_sent:
  "map url (sent worldE) =
     [''https://vaniercollege.omnivox.ca/intr/hor'',
      ''https://vaniercollege-estd.omnivox.ca/estd/load.ovx'',
      ''https://vaniercollege-estd.omnivox.ca/estd/hrre/horaire.ovx'']"
  by (simp add: model_defs site_defs worldE_def)

lemma empty_second_sent:
  "map url (sent (snd (snd (get_all_semesters (site_env site_empty) pageE worldE)))) =
     [''https://vaniercollege.omnivox.ca/intr/hor'',
      ''https://vaniercollege-estd.omnivox.ca/estd/load.ovx'',
      ''https://vaniercollege-estd.omnivox.ca/estd/hrre/horaire.ovx'',
      ''https://vaniercollege.omnivox.ca/intr/hor'',
      ''https://vaniercollege-estd.omnivox.ca/estd/load.ovx'',
      ''https://vaniercollege-estd.omnivox.ca/estd/hrre/horaire.ovx'']"
  by (simp add: model_defs site_defs worldE_def)

lemma get_all_semesters_site1:
  "get_all_semesters (site_env site1) page0 world2 = (Inr [fall, winter], pageD, worldD)"
proof -
  have n: "py_not (priv_semesters page0)" by (simp add: page0_def py_not_def)
  have s: "priv_semesters pageD = Some [fall, winter]" by (simp add: pageD_def)
  show ?thesis
    using n s by (simp add: get_all_semesters_def fetch_if_needed_def fetch_site1)
qed

lemma two_course_table:
  "q_find (site_env site1) ''.tbAvertissement'' two_course_doc = []"
  "q_index (q_find (site_env site1) ''.tbContenantPageLayout table table'' two_course_doc) 3
     = Inr (Elem ''table'' [] []
              [plain_row, plain_row, plain_row,
               course_row ''345-102-MQ'' ''00001'' ''Intro to X'' ''Jane Doe'',
               course_row ''201-NYA-05'' ''00002'' ''Calculus I'' ''John Roe'', plain_row])"
  "q_children (site_env site1) ''tr''
     [Elem ''table'' [] []
              [plain_row, plain_row, plain_row,
               course_row ''345-102-MQ'' ''00001'' ''Intro to X'' ''Jane Doe'',
               course_row ''201-NYA-05'' ''00002'' ''Calculus I'' ''John Roe'', plain_row]]
     = [plain_row, plain_row, plain_row,
        course_row ''345-102-MQ'' ''00001'' ''Intro to X'' ''Jane Doe'',
        course_row ''201-NYA-05'' ''00002'' ''Calculus I'' ''John Roe'', plain_row]"
  by (simp_all add: model_defs site_defs)

lemma two_lists: "length xs = 2 \<Longrightarrow> xs = [xs ! 0, xs ! 1]"
  by (cases xs; cases "tl xs") auto

lemma load_results_none:
  "fst (load_results_page (site_env site_none) pageD fall worldD) = Inr no_results_doc"
  by (simp add: model_defs site_defs)

lemma no_results_doc_facts:
  "q_find (site_env site_none) ''.tbAvertissement'' no_results_doc \<noteq> []"
  "q_find (site_env site_none) ''.tbContenantPageLayout table table'' no_results_doc = []"
  by (simp_all add: site_env_def dom_find_def dom_matches_def no_results_doc_def)

lemma nolink_facts:
  "q_find (site_env site1) ''#ctl00_partOffreServices_offreV2_HOR'' (homepage_d session_nolink) = []"
  "fst (get_schedule_page (site_env site1) session_nolink world1) = Inr page_noref"
  by (simp_all add: get_schedule_page_def page_init_def new_jar_def jar_update_def q_attr_def Let_def
        site_env_def dom_find_def dom_matches_def home_doc_def session_nolink_def page_noref_def world1_def)

lemma site1_options:
  "map (\<lambda>opt. el_get (site_env site1) opt ''selected'')
        (semester_options (site_env site1) (selection_page site1)) = [Some ''selected'', None]"
  by (simp add: model_defs site_defs)

lemma first_call_fall:
  "get_schedule (site_env site1) pageD fall False worldD = (Inr schedF, pageF, worldF)"
proof -
  let ?g = "get_schedule (site_env site1) pageD fall False worldD"
  have f: "fetch_if_needed (site_env site1) pageD worldD = (Inr (), pageD, worldD)"
    using pageD_discovered(1) by (rule fetch_if_needed_skip)
  have m: "False \<or> priv_schedule_cache pageD (semester_id fall) = None"
    using pageD_discovered(3) by (rule disjI2)
  have g0: "?g = (Inr schedF, fst (snd ?g), worldF)"
    unfolding worldF_def using get_schedule_fall_result by (simp add: prod_eq_iff)
  have "fst (snd ?g) = pageF"
    unfolding pageF_def
    using get_schedule_miss_facts(2)[OF f m pageD_discovered(2) g0 refl] by (rule conjunct2)
  then show ?thesis using g0 by simp
qed

lemma get_schedule_summer99:
  "fst (get_schedule (site_env site1) pageD summer99 False worldD)
     = Inr \<lparr>semester = summer99, courses = [intro_course]\<rparr>"
  by (simp add: model_defs site_defs)








lemma fetch_noaction:
  "fetch (site_env site_noaction) page0 world2 = (Inl TypeError, pageN, world_noaction)"
proof -
  have 1: "fst (fetch (site_env site_noaction) page0 world2) = Inl TypeError"
    by (simp add: model_defs site_defs)
  have 2: "fst (snd (fetch (site_env site_noaction) page0 world2)) = pageN"
    by (simp add: model_defs site_defs)
  have 3: "snd (snd (fetch (site_env site_noaction) page0 world2)) = world_noaction"
    unfolding world_noaction_def by (rule fetch_world)
  show ?thesis using 1 2 3 by (simp add: prod_eq_iff)
qed

lemma pageN_facts:
  "priv_semesters pageN = Some (fall # [winter])"
  "priv_schedule_request_url pageN = None"
  by (simp_all add: pageN_def page0_def)

section \<open>The claims\<close>

text \<open>
  C1 (as the code has it). \<^verbatim>\<open>login\<close> tests the status of the form POST with
  \<^verbatim>\<open>status_code != 302\<close>. Once the POST has been answered: for every status other
  than 302, the other 3xx codes included, \<^verbatim>\<open>login\<close> returns \<^verbatim>\<open>None\<close>, raising nothing
  and sending no third request; it returns a session exactly when the status is 302 and
  the landing-page request and the parse of its body succeed.
\<close>

theorem login_decided_by_status_302:
  assumes "login_post env sid pw w = (Inr (r1, r2), w1)"
  shows "(status_code r2 \<noteq> 302 \<longrightarrow> login env sid pw w = (Inr None, w1))
       \<and> (\<forall>s w2. login env sid pw w = (Inr (Some s), w2)
             \<longleftrightarrow> status_code r2 = 302 \<and> login_finish env r1 r2 w1 = (Inr s, w2))
       \<and> length (sent w1) = length (sent w) + 2"
proof (intro conjI allI impI)
  assume "status_code r2 \<noteq> 302"
  then show "login env sid pw w = (Inr None, w1)"
    using assms by (simp add: login_def)
next
  fix s and w2 :: world
  show "login env sid pw w = (Inr (Some s), w2)
          \<longleftrightarrow> status_code r2 = 302 \<and> login_finish env r1 r2 w1 = (Inr s, w2)"
    using assms by (auto simp: login_def split: sum.splits prod.splits if_splits)
next
  show "length (sent w1) = length (sent w) + 2"
    using assms by (rule login_post_sent)
qed

text \<open>A portal that answers the form POST with 301, a redirect status: \<^verbatim>\<open>login\<close> returns \<^verbatim>\<open>None\<close>.\<close>

theorem login_other_3xx_counterexample:
  "fst (login_post (site_env site_moved) (Some ''1234567'') (Some ''secret'') world0)
     = Inr (\<lparr>status_code = 200, body_text = ''L'', resp_cookies = 0\<rparr>,
            \<lparr>status_code = 301, body_text = ''P'', resp_cookies = 1\<rparr>)
   \<and> fst (login (site_env site_moved) (Some ''1234567'') (Some ''secret'') world0) = Inr None"
  by (simp add: model_defs site_defs)

theorem login_decided_by_status_302_witness:
  "login_post (site_env site_denied) (Some ''1234567'') (Some ''secret'') world0
     = (Inr (\<lparr>status_code = 200, body_text = ''L'', resp_cookies = 0\<rparr>,
             \<lparr>status_code = 200, body_text = ''P'', resp_cookies = 1\<rparr>), world_denied)
   \<and> login (site_env site_denied) (Some ''1234567'') (Some ''secret'') world0 = (Inr None, world_denied)
   \<and> length (sent world_denied) = 2
   \<and> login_post (site_env site1) (Some ''1234567'') (Some ''secret'') world0
     = (Inr (\<lparr>status_code = 200, body_text = ''L'', resp_cookies = 0\<rparr>,
             \<lparr>status_code = 302, body_text = ''P'', resp_cookies = 1\<rparr>), world_posted)
   \<and> fst (login (site_env site1) (Some ''1234567'') (Some ''secret'') world0) = Inr (Some session1)"
proof -
  let ?r1 = "\<lparr>status_code = 200, body_text = ''L'', resp_cookies = 0\<rparr>"
  let ?r200 = "\<lparr>status_code = 200, body_text = ''P'', resp_cookies = 1\<rparr>"
  let ?r302 = "\<lparr>status_code = 302, body_text = ''P'', resp_cookies = 1\<rparr>"
  have d: "login_post (site_env site_denied) (Some ''1234567'') (Some ''secret'') world0
             = (Inr (?r1, ?r200), world_denied)"
    unfolding world_denied_def using login_post_denied by (rule pair_from_fst)
  have g: "login_post (site_env site1) (Some ''1234567'') (Some ''secret'') world0
             = (Inr (?r1, ?r302), world_posted)"
    unfolding world_posted_def using login_post_granted by (rule pair_from_fst)
  note td = login_decided_by_status_302[OF d]
  note tg = login_decided_by_status_302[OF g]
  have ne: "status_code ?r200 \<noteq> 302" by simp
  have 1: "login (site_env site_denied) (Some ''1234567'') (Some ''secret'') world0 = (Inr None, world_denied)"
    using td[THEN conjunct1, rule_format, OF ne] .
  have 2: "length (sent world_denied) = 2"
    using td[THEN conjunct2, THEN conjunct2] by (simp add: world0_def)
  have f: "login_finish (site_env site1) ?r1 ?r302 world_posted
             = (Inr session1, snd (login_finish (site_env site1) ?r1 ?r302 world_posted))"
    using login_finish_granted by (rule pair_from_fst)
  have st: "status_code ?r302 = 302" by simp
  have 3: "login (site_env site1) (Some ''1234567'') (Some ''secret'') world0
             = (Inr (Some session1), snd (login_finish (site_env site1) ?r1 ?r302 world_posted))"
    using tg[THEN conjunct2, THEN conjunct1, rule_format, THEN iffD2, OF conjI, OF st f] .
  have 4: "fst (login (site_env site1) (Some ''1234567'') (Some ''secret'') world0) = Inr (Some session1)"
    unfolding 3 by simp
  show ?thesis using d 1 2 g 4 by (intro conjI)
qed




text \<open>
  C3 (as the code has it). With the selection document loaded, \<^verbatim>\<open>fetch\<close> fails only
  for a form without \<^verbatim>\<open>action\<close>: the concatenation of line 134 raises \<^verbatim>\<open>TypeError\<close>,
  after the semesters have been assigned. With an action it completes, whatever the
  number of options; a \<^verbatim>\<open><select>\<close> without options leaves the empty tuple.
\<close>

theorem fetch_fails_only_on_missing_action:
  assumes "load_selection_document env p w = (Inr d, w1)"
  shows "(q_attr env ''action'' (q_find env ''form'' d) = None \<longrightarrow>
            fetch env p w = (Inl TypeError, p\<lparr>priv_semesters := Some (parse_semesters env d)\<rparr>, w1))
       \<and> (\<forall>a. q_attr env ''action'' (q_find env ''form'' d) = Some a \<longrightarrow>
            fetch env p w = (Inr (), p\<lparr>priv_semesters := Some (parse_semesters env d),
                                       priv_schedule_request_url := Some (LEA_DOMAIN @ ''/hrre/'' @ a)\<rparr>, w1))
       \<and> (semester_options env d = [] \<longrightarrow> parse_semesters env d = [])"
  using assms
  by (simp add: fetch_def py_add_def parse_semesters_def)

text \<open>A selection document whose \<^verbatim>\<open><select>\<close> has no option and whose form has an action: \<^verbatim>\<open>fetch\<close> completes with the empty tuple.\<close>

theorem fetch_completes_without_semesters_counterexample:
  "fst (load_selection_document (site_env site_empty) page0 world2) = Inr (selection_page site_empty)
   \<and> semester_options (site_env site_empty) (selection_page site_empty) = []
   \<and> fst (fetch (site_env site_empty) page0 world2) = Inr ()
   \<and> priv_semesters (fst (snd (fetch (site_env site_empty) page0 world2))) = Some []"
  by (simp add: model_defs site_defs)

theorem fetch_fails_only_on_missing_action_witness:
  "load_selection_document (site_env site_noaction) page0 world2 = (Inr (selection_page site_noaction), world_noaction)
   \<and> q_attr (site_env site_noaction) ''action''
        (q_find (site_env site_noaction) ''form'' (selection_page site_noaction)) = None
   \<and> fetch (site_env site_noaction) page0 world2
        = (Inl TypeError, page0\<lparr>priv_semesters := Some [fall, winter]\<rparr>, world_noaction)
   \<and> load_selection_document (site_env site1) page0 world2 = (Inr (selection_page site1), world_selection)
   \<and> q_attr (site_env site1) ''action'' (q_find (site_env site1) ''form'' (selection_page site1)) = Some ''ask.ovx''
   \<and> fetch (site_env site1) page0 world2
        = (Inr (), page0\<lparr>priv_semesters := Some [fall, winter],
                          priv_schedule_request_url := Some (LEA_DOMAIN @ ''/hrre/'' @ ''ask.ovx'')\<rparr>,
           world_selection)"
proof -
  have l1: "load_selection_document (site_env site_noaction) page0 world2
              = (Inr (selection_page site_noaction), world_noaction)"
    unfolding world_noaction_def using load_noaction by (rule pair_from_fst)
  have l2: "load_selection_document (site_env site1) page0 world2 = (Inr (selection_page site1), world_selection)"
    unfolding world_selection_def using load_site1 by (rule pair_from_fst)
  note t1 = fetch_fails_only_on_missing_action[OF l1, THEN conjunct1, rule_format, OF noaction_facts(1)]
  note t2 = fetch_fails_only_on_missing_action[OF l2, THEN conjunct2, THEN conjunct1, rule_format,
      OF site1_selection_facts(1)]
  have f1: "fetch (site_env site_noaction) page0 world2
        = (Inl TypeError, page0\<lparr>priv_semesters := Some [fall, winter]\<rparr>, world_noaction)"
    using t1 unfolding noaction_facts(2) .
  have f2: "fetch (site_env site1) page0 world2
        = (Inr (), page0\<lparr>priv_semesters := Some [fall, winter],
                          priv_schedule_request_url := Some (LEA_DOMAIN @ ''/hrre/'' @ ''ask.ovx'')\<rparr>,
           world_selection)"
    using t2 unfolding site1_selection_facts(2) .
  show ?thesis
    using l1 noaction_facts(1) f1 l2 site1_selection_facts(1) f2 by (intro conjI)
qed

text \<open>
  C4 (as the code has it). After one of \<^verbatim>\<open>get_current_semester\<close>,
  \<^verbatim>\<open>get_all_semesters\<close>, \<^verbatim>\<open>get_schedule\<close> has completed, the tuple of semesters is
  set. If it is not empty, no later query runs \<^verbatim>\<open>fetch\<close>: from any state of the store
  the two semester queries answer from the tuple and change nothing, and \<^verbatim>\<open>get_schedule\<close>
  keeps the tuple and the request URL and sends nothing or its own POST, followed by at
  most one request. If the tuple is empty, the guard \<^verbatim>\<open>not self._semesters\<close> holds
  again and every query starts with \<^verbatim>\<open>fetch\<close>.
\<close>

theorem discovery_not_repeated_when_semesters_found:
  assumes completed:
    "get_current_semester env p0 w0 = (Inr r1, p, w)
     \<or> get_all_semesters env p0 w0 = (Inr r2, p, w)
     \<or> get_schedule env p0 sem0 force0 w0 = (Inr r3, p, w)"
  shows "\<exists>sems. priv_semesters p = Some sems
       \<and> (sems \<noteq> [] \<longrightarrow>
            (\<forall>v. fetch_if_needed env p v = (Inr (), p, v)
                \<and> get_current_semester env p v = (Inr (find current sems), p, v)
                \<and> get_all_semesters env p v = (Inr sems, p, v)
                \<and> (\<forall>sem force r p' v'. get_schedule env p sem force v = (r, p', v') \<longrightarrow>
                      priv_semesters p' = Some sems
                    \<and> priv_schedule_request_url p' = priv_schedule_request_url p
                    \<and> (sent v' = sent v
                       \<or> (\<exists>post rest. sent v' = sent v @ post # rest \<and> http_method post = ''POST''
                             \<and> form_data post = schedule_form sem \<and> length rest \<le> 1)))))
       \<and> (sems = [] \<longrightarrow> (\<forall>v. fetch_if_needed env p v = fetch env p v))"
proof -
  have "\<exists>sems. priv_semesters p = Some sems"
    using completed
  proof (elim disjE)
    assume "get_current_semester env p0 w0 = (Inr r1, p, w)"
    then show ?thesis by (rule get_current_semester_ok_semesters)
  next
    assume "get_all_semesters env p0 w0 = (Inr r2, p, w)"
    then show ?thesis by (rule get_all_semesters_ok_semesters)
  next
    assume "get_schedule env p0 sem0 force0 w0 = (Inr r3, p, w)"
    then show ?thesis by (rule get_schedule_ok_semesters)
  qed
  then obtain sems where sems: "priv_semesters p = Some sems" ..
  have known: "fetch_if_needed env p v = (Inr (), p, v)
                \<and> get_current_semester env p v = (Inr (find current sems), p, v)
                \<and> get_all_semesters env p v = (Inr sems, p, v)
                \<and> (\<forall>sem force r p' v'. get_schedule env p sem force v = (r, p', v') \<longrightarrow>
                      priv_semesters p' = Some sems
                    \<and> priv_schedule_request_url p' = priv_schedule_request_url p
                    \<and> (sent v' = sent v
                       \<or> (\<exists>post rest. sent v' = sent v @ post # rest \<and> http_method post = ''POST''
                             \<and> form_data post = schedule_form sem \<and> length rest \<le> 1)))"
    if ne: "sems \<noteq> []" for v
  proof -
    obtain s0 ss where c: "sems = s0 # ss" using ne by (cases sems) auto
    have sc: "priv_semesters p = Some (s0 # ss)" using sems c by simp
    have f: "fetch_if_needed env p v = (Inr (), p, v)"
      using sc by (rule fetch_if_needed_skip)
    have gc: "get_current_semester env p v = (Inr (find current sems), p, v)"
      using f sems by (simp add: get_current_semester_def)
    have ga: "get_all_semesters env p v = (Inr sems, p, v)"
      using f sems by (simp add: get_all_semesters_def)
    have gs: "\<forall>sem force r p' v'. get_schedule env p sem force v = (r, p', v') \<longrightarrow>
                      priv_semesters p' = Some sems
                    \<and> priv_schedule_request_url p' = priv_schedule_request_url p
                    \<and> (sent v' = sent v
                       \<or> (\<exists>post rest. sent v' = sent v @ post # rest \<and> http_method post = ''POST''
                             \<and> form_data post = schedule_form sem \<and> length rest \<le> 1))"
    proof (intro allI impI)
      fix sem force r and p' :: page and v' :: world
      assume g: "get_schedule env p sem force v = (r, p', v')"
      show "priv_semesters p' = Some sems
                    \<and> priv_schedule_request_url p' = priv_schedule_request_url p
                    \<and> (sent v' = sent v
                       \<or> (\<exists>post rest. sent v' = sent v @ post # rest \<and> http_method post = ''POST''
                             \<and> form_data post = schedule_form sem \<and> length rest \<le> 1))"
        using get_schedule_known[OF sc g] sems by simp
    qed
    show ?thesis using f gc ga gs by (intro conjI)
  qed
  have empty: "fetch_if_needed env p v = fetch env p v" if "sems = []" for v
    using sems that by (simp add: fetch_if_needed_def py_not_def)
  show ?thesis
  proof (intro exI[of _ sems] conjI impI allI)
    show "priv_semesters p = Some sems" by (rule sems)
  next
    fix v :: world assume ne: "sems \<noteq> []"
    note k = known[OF ne, of v]
    show "fetch_if_needed env p v = (Inr (), p, v)" using k by (rule conjunct1)
    show "get_current_semester env p v = (Inr (find current sems), p, v)"
      using k[THEN conjunct2] by (rule conjunct1)
    show "get_all_semesters env p v = (Inr sems, p, v)"
      using k[THEN conjunct2, THEN conjunct2] by (rule conjunct1)
  next
    fix v :: world and sem force r and p' :: page and v' :: world
    assume ne: "sems \<noteq> []" and g: "get_schedule env p sem force v = (r, p', v')"
    note k = known[OF ne, of v, THEN conjunct2, THEN conjunct2, THEN conjunct2, rule_format, OF g]
    show "priv_semesters p' = Some sems" using k by (rule conjunct1)
    show "priv_schedule_request_url p' = priv_schedule_request_url p"
      using k[THEN conjunct2] by (rule conjunct1)
    show "sent v' = sent v
           \<or> (\<exists>post rest. sent v' = sent v @ post # rest \<and> http_method post = ''POST''
                 \<and> form_data post = schedule_form sem \<and> length rest \<le> 1)"
      using k[THEN conjunct2] by (rule conjunct2)
  next
    fix v :: world assume "sems = []"
    then show "fetch_if_needed env p v = fetch env p v" by (rule empty)
  qed
qed

text \<open>A portal whose \<^verbatim>\<open><select>\<close> has no option: the second \<^verbatim>\<open>get_all_semesters\<close> sends the three discovery requests again.\<close>

theorem discovery_repeated_counterexample:
  "get_all_semesters (site_env site_empty) page0 world2 = (Inr [], pageE, worldE)
   \<and> map url (sent worldE) =
     [''https://vaniercollege.omnivox.ca/intr/hor'',
      ''https://vaniercollege-estd.omnivox.ca/estd/load.ovx'',
      ''https://vaniercollege-estd.omnivox.ca/estd/hrre/horaire.ovx'']
   \<and> map url (sent (snd (snd (get_all_semesters (site_env site_empty) pageE worldE)))) =
     [''https://vaniercollege.omnivox.ca/intr/hor'',
      ''https://vaniercollege-estd.omnivox.ca/estd/load.ovx'',
      ''https://vaniercollege-estd.omnivox.ca/estd/hrre/horaire.ovx'',
      ''https://vaniercollege.omnivox.ca/intr/hor'',
      ''https://vaniercollege-estd.omnivox.ca/estd/load.ovx'',
      ''https://vaniercollege-estd.omnivox.ca/estd/hrre/horaire.ovx'']"
proof -
  have 1: "get_all_semesters (site_env site_empty) page0 world2 = (Inr [], pageE, worldE)"
    unfolding worldE_def using empty_first by (rule triple_from_fst)
  show ?thesis using 1 empty_first_sent empty_second_sent by (intro conjI)
qed

theorem discovery_not_repeated_when_semesters_found_witness:
  "get_all_semesters (site_env site1) page0 world2 = (Inr [fall, winter], pageD, worldD)
   \<and> fetch_if_needed (site_env site1) pageD worldD = (Inr (), pageD, worldD)
   \<and> get_current_semester (site_env site1) pageD worldD = (Inr (Some fall), pageD, worldD)
   \<and> get_all_semesters (site_env site1) pageD worldD = (Inr [fall, winter], pageD, worldD)"
proof -
  have c: "get_current_semester (site_env site1) page0 world2 = (Inr None, pageD, worldD)
     \<or> get_all_semesters (site_env site1) page0 world2 = (Inr [fall, winter], pageD, worldD)
     \<or> get_schedule (site_env site1) page0 fall False world2 = (Inr schedF, pageD, worldD)"
    using get_all_semesters_site1 by (intro disjI2 disjI1)
  from discovery_not_repeated_when_semesters_found[OF c]
  obtain sems where sems: "priv_semesters pageD = Some sems"
    and known: "sems \<noteq> [] \<longrightarrow>
            (\<forall>v. fetch_if_needed (site_env site1) pageD v = (Inr (), pageD, v)
                \<and> get_current_semester (site_env site1) pageD v = (Inr (find current sems), pageD, v)
                \<and> get_all_semesters (site_env site1) pageD v = (Inr sems, pageD, v)
                \<and> (\<forall>sem force r p' v'. get_schedule (site_env site1) pageD sem force v = (r, p', v') \<longrightarrow>
                      priv_semesters p' = Some sems
                    \<and> priv_schedule_request_url p' = priv_schedule_request_url pageD
                    \<and> (sent v' = sent v
                       \<or> (\<exists>post rest. sent v' = sent v @ post # rest \<and> http_method post = ''POST''
                             \<and> form_data post = schedule_form sem \<and> length rest \<le> 1))))"
    by (elim exE conjE)
  have e: "sems = [fall, winter]" using sems by (simp add: pageD_def)
  have ne: "sems \<noteq> []" unfolding e by simp
  note k = known[rule_format, OF ne, of worldD]
  have 1: "fetch_if_needed (site_env site1) pageD worldD = (Inr (), pageD, worldD)"
    using k by (rule conjunct1)
  have 2: "get_current_semester (site_env site1) pageD worldD = (Inr (Some fall), pageD, worldD)"
    using k[THEN conjunct2, THEN conjunct1] unfolding e by (simp add: fall_def)
  have 3: "get_all_semesters (site_env site1) pageD worldD = (Inr [fall, winter], pageD, worldD)"
    using k[THEN conjunct2, THEN conjunct2, THEN conjunct1] unfolding e .
  show ?thesis using get_all_semesters_site1 1 2 3 by (intro conjI)
qed

text \<open>
  C5 (as the code has it). For a results page without the no-results marker, whose
  fourth nested table has 3 + N + 1 rows and whose N data rows have at least five cells
  each, the translator returns N courses; the i-th is read from row 3 + i: number,
  section and title from the \<^verbatim>\<open>span\<close> of cells 1, 2 and 3, the teacher from the
  \<^verbatim>\<open>a\<close> of cell 4. The first three rows and the last are not read.
\<close>

theorem translate_table_one_course_per_data_row:
  assumes no_marker: "q_find env ''.tbAvertissement'' d = []"
      and table: "q_index (q_find env ''.tbContenantPageLayout table table'' d) 3 = Inr t"
      and rows: "q_children env ''tr'' [t] = rows"
      and count: "length rows = 3 + N + 1"
      and cells: "\<forall>i<N. 5 \<le> length (q_children env ''td'' [rows ! (3 + i)])"
  shows "\<exists>cs. translate_table env d = Inr cs \<and> length cs = N
       \<and> (\<forall>i<N. cs ! i =
            \<lparr>number = q_text env (q_find env ''span'' [q_children env ''td'' [rows ! (3 + i)] ! 1]),
             section_no = q_text env (q_find env ''span'' [q_children env ''td'' [rows ! (3 + i)] ! 2]),
             title = q_text env (q_find env ''span'' [q_children env ''td'' [rows ! (3 + i)] ! 3]),
             teacher = q_text env (q_find env ''a'' [q_children env ''td'' [rows ! (3 + i)] ! 4])\<rparr>)"
proof -
  let ?g = "\<lambda>i. \<lparr>number = q_text env (q_find env ''span'' [q_children env ''td'' [rows ! i] ! 1]),
                 section_no = q_text env (q_find env ''span'' [q_children env ''td'' [rows ! i] ! 2]),
                 title = q_text env (q_find env ''span'' [q_children env ''td'' [rows ! i] ! 3]),
                 teacher = q_text env (q_find env ''a'' [q_children env ''td'' [rows ! i] ! 4])\<rparr>"
  have range: "[3..<length rows - 1] = [3..<3 + N]" using count by simp
  have ok: "course_of_row env (rows ! i) = Inr (?g i)" if "i \<in> set [3..<3 + N]" for i
  proof -
    from that have "3 \<le> i" "i - 3 < N" by auto
    then have "5 \<le> length (q_children env ''td'' [rows ! (3 + (i - 3))])" using cells by blast
    then have "5 \<le> length (q_children env ''td'' [rows ! i])" using \<open>3 \<le> i\<close> by simp
    then show ?thesis by (rule course_of_row_ok)
  qed
  have c: "collect (\<lambda>i. course_of_row env (rows ! i)) [3..<3 + N] = Inr (map ?g [3..<3 + N])"
    using ok by (rule collect_all_ok)
  have t: "translate_table env d = Inr (map ?g [3..<3 + N])"
    using no_marker table rows range c by (simp add: translate_table_def and_then_def)
  have n: "\<forall>i<N. map ?g [3..<3 + N] ! i = ?g (3 + i)" by simp
  show ?thesis
    using t n by (intro exI[of _ "map ?g [3..<3 + N]"]) simp
qed

text \<open>A table of 3 + 1 + 1 rows whose data row has two cells: the translator raises \<^verbatim>\<open>IndexError\<close>.\<close>

theorem translate_table_short_row_counterexample:
  "q_find (site_env site1) ''.tbAvertissement'' short_row_doc = []
   \<and> length (q_find (site_env site1) ''.tbContenantPageLayout table table'' short_row_doc) = 4
   \<and> length (q_children (site_env site1) ''tr''
        [q_find (site_env site1) ''.tbContenantPageLayout table table'' short_row_doc ! 3]) = 3 + 1 + 1
   \<and> translate_table (site_env site1) short_row_doc = Inl IndexError"
  by (simp add: model_defs site_defs)

theorem translate_table_one_course_per_data_row_witness:
  "q_find (site_env site1) ''.tbAvertissement'' two_course_doc = []
   \<and> length [plain_row, plain_row, plain_row,
        course_row ''345-102-MQ'' ''00001'' ''Intro to X'' ''Jane Doe'',
        course_row ''201-NYA-05'' ''00002'' ''Calculus I'' ''John Roe'', plain_row] = 3 + 2 + 1
   \<and> translate_table (site_env site1) two_course_doc = Inr [intro_course, calculus_course]"
proof -
  let ?rows = "[plain_row, plain_row, plain_row,
        course_row ''345-102-MQ'' ''00001'' ''Intro to X'' ''Jane Doe'',
        course_row ''201-NYA-05'' ''00002'' ''Calculus I'' ''John Roe'', plain_row]"
  have count: "length ?rows = 3 + 2 + 1" by simp
  have cells: "\<forall>i<2. 5 \<le> length (q_children (site_env site1) ''td'' [?rows ! (3 + i)])"
  proof (intro allI impI)
    fix i :: nat assume "i < 2"
    then have "i = 0 \<or> i = 1" by auto
    then show "5 \<le> length (q_children (site_env site1) ''td'' [?rows ! (3 + i)])"
      by (auto simp: site_env_def dom_children_def dom_matches_def course_row_def cell_def)
  qed
  from translate_table_one_course_per_data_row[OF two_course_table(1) two_course_table(2)
      two_course_table(3) count cells]
  obtain cs where t: "translate_table (site_env site1) two_course_doc = Inr cs"
    and n: "length cs = 2"
    and each: "\<forall>i<2. cs ! i =
            \<lparr>number = q_text (site_env site1) (q_find (site_env site1) ''span'' [q_children (site_env site1) ''td'' [?rows ! (3 + i)] ! 1]),
             section_no = q_text (site_env site1) (q_find (site_env site1) ''span'' [q_children (site_env site1) ''td'' [?rows ! (3 + i)] ! 2]),
             title = q_text (site_env site1) (q_find (site_env site1) ''span'' [q_children (site_env site1) ''td'' [?rows ! (3 + i)] ! 3]),
             teacher = q_text (site_env site1) (q_find (site_env site1) ''a'' [q_children (site_env site1) ''td'' [?rows ! (3 + i)] ! 4])\<rparr>"
    by (elim exE conjE)
  have c0: "cs ! 0 = intro_course"
    using each[rule_format, of 0]
    by (simp add: site_env_def dom_children_def dom_find_def dom_text_def dom_matches_def
          course_row_def cell_def intro_course_def)
  have c1: "cs ! 1 = calculus_course"
    using each[rule_format, of 1]
    by (simp add: site_env_def dom_children_def dom_find_def dom_text_def dom_matches_def
          course_row_def cell_def calculus_course_def)
  have "cs = [intro_course, calculus_course]"
    using two_lists[OF n] c0 c1 by simp
  then show ?thesis using two_course_table(1) count t by simp
qed

text \<open>
  C6. When \<^verbatim>\<open>get_schedule\<close> has obtained a results page that contains the element
  \<^verbatim>\<open>.tbAvertissement\<close>, the translator returns no course without looking at any table,
  and \<^verbatim>\<open>get_schedule\<close> returns the schedule of the semester with the empty sequence of
  courses, stored in the cache under the semester id.
\<close>

theorem no_results_marker_gives_empty_schedule:
  assumes f: "fetch_if_needed env p w = (Inr (), p1, w1)"
      and m: "force \<or> priv_schedule_cache p1 (semester_id sem) = None"
      and l: "load_results_page env p1 sem w1 = (Inr d, w2)"
      and marker: "q_find env ''.tbAvertissement'' d \<noteq> []"
  shows "translate_table env d = Inr []
       \<and> get_schedule env p sem force w =
           (Inr \<lparr>semester = sem, courses = []\<rparr>,
            p1\<lparr>priv_schedule_cache :=
                 (priv_schedule_cache p1)(semester_id sem \<mapsto> \<lparr>semester = sem, courses = []\<rparr>)\<rparr>,
            w2)"
proof -
  have t: "translate_table env d = Inr []"
    using marker by (simp add: translate_table_def)
  show ?thesis
    using t get_schedule_miss[OF f m] l by simp
qed

theorem no_results_marker_gives_empty_schedule_witness:
  "fetch_if_needed (site_env site_none) pageD worldD = (Inr (), pageD, worldD)
   \<and> priv_schedule_cache pageD (semester_id fall) = None
   \<and> load_results_page (site_env site_none) pageD fall worldD = (Inr no_results_doc, world_none)
   \<and> q_find (site_env site_none) ''.tbAvertissement'' no_results_doc \<noteq> []
   \<and> q_find (site_env site_none) ''.tbContenantPageLayout table table'' no_results_doc = []
   \<and> translate_table (site_env site_none) no_results_doc = Inr []
   \<and> get_schedule (site_env site_none) pageD fall False worldD =
        (Inr \<lparr>semester = fall, courses = []\<rparr>,
         pageD\<lparr>priv_schedule_cache :=
                 (priv_schedule_cache pageD)(semester_id fall \<mapsto> \<lparr>semester = fall, courses = []\<rparr>)\<rparr>,
         world_none)"
proof -
  have f: "fetch_if_needed (site_env site_none) pageD worldD = (Inr (), pageD, worldD)"
    using pageD_discovered(1) by (rule fetch_if_needed_skip)
  have m: "False \<or> priv_schedule_cache pageD (semester_id fall) = None"
    using pageD_discovered(3) by (rule disjI2)
  have l: "load_results_page (site_env site_none) pageD fall worldD = (Inr no_results_doc, world_none)"
    unfolding world_none_def using load_results_none by (rule pair_from_fst)
  note t = no_results_marker_gives_empty_schedule[OF f m l no_results_doc_facts(1)]
  show ?thesis
    using f pageD_discovered(3) l no_results_doc_facts(1) no_results_doc_facts(2)
      t[THEN conjunct1] t[THEN conjunct2]
    by (intro conjI)
qed

text \<open>
  C7 (as the code has it). \<^verbatim>\<open>get_schedule_page\<close> always returns a page; its reference
  is the \<^verbatim>\<open>href\<close> of the selected link, \<^verbatim>\<open>None\<close> when the landing page has no such
  element. The absence shows at the first \<^verbatim>\<open>fetch\<close>, which raises \<^verbatim>\<open>TypeError\<close> on the
  concatenation of the URL, before any request.
\<close>

theorem get_schedule_page_never_fails:
  "\<exists>pg w'. get_schedule_page env session w = (Inr pg, w')
     \<and> schedule_reference pg
         = q_attr env ''href'' (q_find env ''#ctl00_partOffreServices_offreV2_HOR'' (homepage_d session))
     \<and> (q_find env ''#ctl00_partOffreServices_offreV2_HOR'' (homepage_d session) = [] \<longrightarrow>
          schedule_reference pg = None \<and> fetch env pg w' = (Inl TypeError, pg, w'))"
proof -
  let ?ref = "q_attr env ''href'' (q_find env ''#ctl00_partOffreServices_offreV2_HOR'' (homepage_d session))"
  obtain pg w' where i: "page_init session ?ref w = (pg, w')"
    by (cases "page_init session ?ref w") auto
  have r: "schedule_reference pg = ?ref"
    using i by (auto simp: page_init_def new_jar_def Let_def)
  have g: "get_schedule_page env session w = (Inr pg, w')"
    using i by (simp add: get_schedule_page_def Let_def)
  have n: "schedule_reference pg = None \<and> fetch env pg w' = (Inl TypeError, pg, w')"
    if "q_find env ''#ctl00_partOffreServices_offreV2_HOR'' (homepage_d session) = []"
  proof -
    have "schedule_reference pg = None" using r that by (simp add: q_attr_def)
    then show ?thesis using fetch_without_reference by blast
  qed
  show ?thesis using g r n by blast
qed

text \<open>A landing page without the link: \<^verbatim>\<open>get_schedule_page\<close> returns a page whose reference is \<^verbatim>\<open>None\<close>.\<close>

theorem get_schedule_page_without_link_counterexample:
  "q_find (site_env site1) ''#ctl00_partOffreServices_offreV2_HOR'' (homepage_d session_nolink) = []
   \<and> fst (get_schedule_page (site_env site1) session_nolink world1) = Inr page_noref"
  using nolink_facts by (intro conjI)

theorem get_schedule_page_never_fails_witness:
  "q_find (site_env site1) ''#ctl00_partOffreServices_offreV2_HOR'' (homepage_d session_nolink) = []
   \<and> get_schedule_page (site_env site1) session_nolink world1
        = (Inr page_noref, snd (get_schedule_page (site_env site1) session_nolink world1))
   \<and> schedule_reference page_noref = None
   \<and> fetch (site_env site1) page_noref (snd (get_schedule_page (site_env site1) session_nolink world1))
        = (Inl TypeError, page_noref, snd (get_schedule_page (site_env site1) session_nolink world1))"
proof -
  let ?w = "snd (get_schedule_page (site_env site1) session_nolink world1)"
  from get_schedule_page_never_fails[of "site_env site1" session_nolink world1]
  obtain pg w' where g: "get_schedule_page (site_env site1) session_nolink world1 = (Inr pg, w')"
    and absent: "q_find (site_env site1) ''#ctl00_partOffreServices_offreV2_HOR'' (homepage_d session_nolink) = [] \<longrightarrow>
          schedule_reference pg = None \<and> fetch (site_env site1) pg w' = (Inl TypeError, pg, w')"
    by (elim exE conjE)
  have pg: "pg = page_noref" using g nolink_facts(2) by simp
  have w: "w' = ?w" using g by simp
  note a = absent[rule_format, OF nolink_facts(1), unfolded pg w]
  have g': "get_schedule_page (site_env site1) session_nolink world1 = (Inr page_noref, ?w)"
    using nolink_facts(2) by (rule pair_from_fst)
  show ?thesis
    using nolink_facts(1) g' a[THEN conjunct1] a[THEN conjunct2] by (intro conjI)
qed

text \<open>
  C8 (as the code has it). The semesters that \<^verbatim>\<open>fetch\<close> stores are those parsed from
  the options of the selection document; the flag of each is set exactly when its
  option has the attribute \<^verbatim>\<open>selected\<close>, so there are as many current semesters as
  selected options: at most one when at most one option is selected.
\<close>

theorem current_flags_follow_selected_options:
  assumes "load_selection_document env p w = (Inr d, w1)"
  shows "priv_semesters (fst (snd (fetch env p w))) = Some (parse_semesters env d)
       \<and> map current (parse_semesters env d)
           = map (\<lambda>opt. el_get env opt ''selected'' \<noteq> None) (semester_options env d)
       \<and> length (filter current (parse_semesters env d))
           = length (filter (\<lambda>opt. el_get env opt ''selected'' \<noteq> None) (semester_options env d))
       \<and> (length (filter (\<lambda>opt. el_get env opt ''selected'' \<noteq> None) (semester_options env d)) \<le> 1
            \<longrightarrow> length (filter current (parse_semesters env d)) \<le> 1)"
proof -
  have 1: "priv_semesters (fst (snd (fetch env p w))) = Some (parse_semesters env d)"
    using assms by (simp add: fetch_def Let_def split: sum.splits)
  have 2: "map current (parse_semesters env d)
           = map (\<lambda>opt. el_get env opt ''selected'' \<noteq> None) (semester_options env d)"
    by (simp add: parse_semesters_def semester_of_option_def q_attr_def comp_def)
  have 3: "length (filter current (parse_semesters env d))
           = length (filter (\<lambda>opt. el_get env opt ''selected'' \<noteq> None) (semester_options env d))"
    by (simp add: parse_semesters_def semester_of_option_def q_attr_def filter_map comp_def)
  show ?thesis using 1 2 3 by simp
qed

text \<open>A selection document with two selected options: both semesters are current.\<close>

theorem two_selected_options_counterexample:
  "fst (load_selection_document (site_env site_two) page0 world2) = Inr (selection_page site_two)
   \<and> semester_options (site_env site_two) (selection_page site_two)
        = [option_el ''20181'' ''Fall 2018'' True, option_el ''20173'' ''Winter 2018'' True]
   \<and> el_get (site_env site_two) (option_el ''20181'' ''Fall 2018'' True) ''selected'' = Some ''selected''
   \<and> el_get (site_env site_two) (option_el ''20173'' ''Winter 2018'' True) ''selected'' = Some ''selected''
   \<and> priv_semesters (fst (snd (fetch (site_env site_two) page0 world2)))
        = Some [fall, winter\<lparr>current := True\<rparr>]
   \<and> length (filter current [fall, winter\<lparr>current := True\<rparr>]) = 2"
  by (simp add: model_defs site_defs)

theorem current_flags_follow_selected_options_witness:
  "load_selection_document (site_env site1) page0 world2 = (Inr (selection_page site1), world_selection)
   \<and> priv_semesters (fst (snd (fetch (site_env site1) page0 world2))) = Some [fall, winter]
   \<and> map current [fall, winter] = [True, False]
   \<and> length (filter current [fall, winter]) = 1"
proof -
  have l: "load_selection_document (site_env site1) page0 world2 = (Inr (selection_page site1), world_selection)"
    unfolding world_selection_def using load_site1 by (rule pair_from_fst)
  note t = current_flags_follow_selected_options[OF l, unfolded site1_selection_facts(2)]
  have 1: "priv_semesters (fst (snd (fetch (site_env site1) page0 world2))) = Some [fall, winter]"
    using t by (rule conjunct1)
  have o: "map (\<lambda>opt. el_get (site_env site1) opt ''selected'' \<noteq> None)
             (semester_options (site_env site1) (selection_page site1)) = [True, False]"
  proof -
    have "map (\<lambda>opt. el_get (site_env site1) opt ''selected'' \<noteq> None)
             (semester_options (site_env site1) (selection_page site1))
          = map (\<lambda>v. v \<noteq> None) (map (\<lambda>opt. el_get (site_env site1) opt ''selected'')
             (semester_options (site_env site1) (selection_page site1)))"
      by (simp add: comp_def)
    then show ?thesis unfolding site1_options by simp
  qed
  have 2: "map current [fall, winter] = [True, False]"
    using t[THEN conjunct2, THEN conjunct1] unfolding o .
  have 3: "length (filter current [fall, winter]) = 1"
    by (simp add: fall_def winter_def)
  show ?thesis using l 1 2 3 by (intro conjI)
qed



text \<open>
  C9. A page made by \<^verbatim>\<open>get_schedule_page\<close> owns a jar of its own, at a new address,
  holding a copy of the session's cookies. Whatever \<^verbatim>\<open>fetch\<close>, \<^verbatim>\<open>get_schedule\<close>,
  \<^verbatim>\<open>get_current_semester\<close> and \<^verbatim>\<open>get_all_semesters\<close> do, from any later state of the
  page and of the store, the session's jar keeps its content; and an update of the
  session's jar leaves the page's jar as it is.
\<close>

theorem page_jar_is_independent_snapshot:
  assumes alloc: "sess_cookies session < next_addr w"
      and made: "get_schedule_page env session w = (Inr pg, w0)"
  shows "page_cookies pg \<noteq> sess_cookies session
       \<and> jars w0 (page_cookies pg) = jars w (sess_cookies session)
       \<and> jars w0 (sess_cookies session) = jars w (sess_cookies session)
       \<and> sess_cookies session < next_addr w0
       \<and> (\<forall>p w1. page_cookies p = page_cookies pg \<and> sess_cookies session < next_addr w1 \<longrightarrow>
            (case fetch env p w1 of (r, p', w') \<Rightarrow>
               jars w' (sess_cookies session) = jars w1 (sess_cookies session)
               \<and> page_cookies p' = page_cookies pg \<and> sess_cookies session < next_addr w')
          \<and> (\<forall>sem force. case get_schedule env p sem force w1 of (r, p', w') \<Rightarrow>
               jars w' (sess_cookies session) = jars w1 (sess_cookies session)
               \<and> page_cookies p' = page_cookies pg \<and> sess_cookies session < next_addr w')
          \<and> (case get_current_semester env p w1 of (r, p', w') \<Rightarrow>
               jars w' (sess_cookies session) = jars w1 (sess_cookies session)
               \<and> page_cookies p' = page_cookies pg \<and> sess_cookies session < next_addr w')
          \<and> (case get_all_semesters env p w1 of (r, p', w') \<Rightarrow>
               jars w' (sess_cookies session) = jars w1 (sess_cookies session)
               \<and> page_cookies p' = page_cookies pg \<and> sess_cookies session < next_addr w'))
       \<and> (\<forall>other w1. jars (jar_update (sess_cookies session) other w1) (page_cookies pg)
                        = jars w1 (page_cookies pg))"
proof -
  let ?a = "sess_cookies session"
  obtain ref where init: "page_init session ref w = (pg, w0)"
    using made unfolding get_schedule_page_def Let_def
    by (auto split: prod.splits)
  note props = page_init_props[OF init alloc]
  have ne: "page_cookies pg \<noteq> ?a" using props(1) alloc by simp
  have snap: "jars w0 (page_cookies pg) = jars w ?a" by (rule props(3))
  have kept: "jars w0 ?a = jars w ?a" by (rule props(4))
  have still: "?a < next_addr w0" using props(2) alloc by simp
  have ops: "(case fetch env p w1 of (r, p', w') \<Rightarrow>
               jars w' ?a = jars w1 ?a \<and> page_cookies p' = page_cookies pg \<and> ?a < next_addr w')
          \<and> (\<forall>sem force. case get_schedule env p sem force w1 of (r, p', w') \<Rightarrow>
               jars w' ?a = jars w1 ?a \<and> page_cookies p' = page_cookies pg \<and> ?a < next_addr w')
          \<and> (case get_current_semester env p w1 of (r, p', w') \<Rightarrow>
               jars w' ?a = jars w1 ?a \<and> page_cookies p' = page_cookies pg \<and> ?a < next_addr w')
          \<and> (case get_all_semesters env p w1 of (r, p', w') \<Rightarrow>
               jars w' ?a = jars w1 ?a \<and> page_cookies p' = page_cookies pg \<and> ?a < next_addr w')"
    if same: "page_cookies p = page_cookies pg" and al: "?a < next_addr w1" for p w1
  proof -
    have d: "?a \<noteq> page_cookies p" using ne same by simp
    have 1: "case fetch env p w1 of (r, p', w') \<Rightarrow>
               jars w' ?a = jars w1 ?a \<and> page_cookies p' = page_cookies pg \<and> ?a < next_addr w'"
      using fetch_frame[OF _ al d] fetch_page_cookies same
      by (cases "fetch env p w1") fastforce
    have 2: "case get_schedule env p sem force w1 of (r, p', w') \<Rightarrow>
               jars w' ?a = jars w1 ?a \<and> page_cookies p' = page_cookies pg \<and> ?a < next_addr w'"
      for sem force
      using get_schedule_frame[OF _ al d] same
      by (cases "get_schedule env p sem force w1") fastforce
    have 3: "case get_current_semester env p w1 of (r, p', w') \<Rightarrow>
               jars w' ?a = jars w1 ?a \<and> page_cookies p' = page_cookies pg \<and> ?a < next_addr w'"
      using get_current_semester_frame[OF _ al d] same
      by (cases "get_current_semester env p w1") fastforce
    have 4: "case get_all_semesters env p w1 of (r, p', w') \<Rightarrow>
               jars w' ?a = jars w1 ?a \<and> page_cookies p' = page_cookies pg \<and> ?a < next_addr w'"
      using get_all_semesters_frame[OF _ al d] same
      by (cases "get_all_semesters env p w1") fastforce
    show ?thesis using 1 2 3 4 by blast
  qed
  have conv: "jars (jar_update ?a other w1) (page_cookies pg) = jars w1 (page_cookies pg)" for other w1
    using ne by (simp add: jar_update_simps)
  show ?thesis
  proof (intro conjI allI impI)
    show "page_cookies pg \<noteq> ?a" by (rule ne)
    show "jars w0 (page_cookies pg) = jars w ?a" by (rule snap)
    show "jars w0 ?a = jars w ?a" by (rule kept)
    show "?a < next_addr w0" by (rule still)
  next
    fix p :: page and w1 :: world assume h: "page_cookies p = page_cookies pg \<and> ?a < next_addr w1"
    from h have h1: "page_cookies p = page_cookies pg" and h2: "?a < next_addr w1" by simp_all
    note o = ops[OF h1 h2]
    show "case fetch env p w1 of (r, p', w') \<Rightarrow>
               jars w' ?a = jars w1 ?a \<and> page_cookies p' = page_cookies pg \<and> ?a < next_addr w'"
      using o by (rule conjunct1)
    show "case get_schedule env p sem force w1 of (r, p', w') \<Rightarrow>
               jars w' ?a = jars w1 ?a \<and> page_cookies p' = page_cookies pg \<and> ?a < next_addr w'"
      for sem force
      using o[THEN conjunct2, THEN conjunct1] by (elim allE)
    show "case get_current_semester env p w1 of (r, p', w') \<Rightarrow>
               jars w' ?a = jars w1 ?a \<and> page_cookies p' = page_cookies pg \<and> ?a < next_addr w'"
      using o[THEN conjunct2, THEN conjunct2] by (rule conjunct1)
    show "case get_all_semesters env p w1 of (r, p', w') \<Rightarrow>
               jars w' ?a = jars w1 ?a \<and> page_cookies p' = page_cookies pg \<and> ?a < next_addr w'"
      using o[THEN conjunct2, THEN conjunct2] by (rule conjunct2)
  next
    fix other and w1 :: world
    show "jars (jar_update ?a other w1) (page_cookies pg) = jars w1 (page_cookies pg)" by (rule conv)
  qed
qed

theorem page_jar_is_independent_snapshot_witness:
  "sess_cookies session0 < next_addr world1
   \<and> get_schedule_page (site_env site1) session0 world1 = (Inr page0, world2)
   \<and> page_cookies page0 \<noteq> sess_cookies session0
   \<and> jars world2 (page_cookies page0) = jars world1 (sess_cookies session0)
   \<and> jars (snd (snd (fetch (site_env site1) page0 world2))) (sess_cookies session0)
       = jars world2 (sess_cookies session0)
   \<and> jars (jar_update (sess_cookies session0) 1 world2) (page_cookies page0)
       = jars world2 (page_cookies page0)"
proof -
  have a: "sess_cookies session0 < next_addr world1"
    by (simp add: session0_def world1_def)
  have m: "get_schedule_page (site_env site1) session0 world1 = (Inr page0, world2)"
    using page0_made unfolding world2_def by (simp add: prod_eq_iff)
  note t = page_jar_is_independent_snapshot[OF a m]
  note t1 = t[THEN conjunct1]
  note t2 = t[THEN conjunct2, THEN conjunct1]
  note t4 = t[THEN conjunct2, THEN conjunct2, THEN conjunct2, THEN conjunct1]
  note t5 = t[THEN conjunct2, THEN conjunct2, THEN conjunct2, THEN conjunct2, THEN conjunct1]
  note t6 = t[THEN conjunct2, THEN conjunct2, THEN conjunct2, THEN conjunct2, THEN conjunct2]
  have f: "case fetch (site_env site1) page0 world2 of (r, p', w') \<Rightarrow>
             jars w' (sess_cookies session0) = jars world2 (sess_cookies session0)
             \<and> page_cookies p' = page_cookies page0 \<and> sess_cookies session0 < next_addr w'"
    using t5[rule_format, of page0 world2, THEN conjunct1] t4 by simp
  have f': "jars (snd (snd (fetch (site_env site1) page0 world2))) (sess_cookies session0)
       = jars world2 (sess_cookies session0)"
    using f by (simp add: case_prod_beta)
  show ?thesis
    using a m t1 t2 f' t6[rule_format, of 1 world2] by (intro conjI)
qed

text \<open>
  C10 (as the code has it). \<^verbatim>\<open>get_schedule\<close> never compares its argument with the
  discovered semesters; what it does with a semester depends on the guarded discovery
  step, the flag, the cache and the request URL alone. If the discovery step raises,
  so does the call. If it succeeds: an unforced call that finds an entry under the id of
  the argument returns the entry and sends no schedule request; a forced or uncached call
  raises \<^verbatim>\<open>MissingSchema\<close> and sends nothing when the request URL is unset; and with the
  URL set it posts the form with the id of the argument, and a schedule it returns has
  the argument as its semester and the courses translated from the results page just
  loaded, and is the cache entry for that id. With a non-empty tuple of semesters the
  discovery step does nothing.
\<close>

theorem get_schedule_takes_any_semester:
  "(\<forall>e p1 w1. fetch_if_needed env p w = (Inl e, p1, w1) \<longrightarrow>
       get_schedule env p sem force w = (Inl e, p1, w1))
   \<and> (\<forall>p1 w1. fetch_if_needed env p w = (Inr (), p1, w1) \<longrightarrow>
        (\<forall>c. \<not> force \<and> priv_schedule_cache p1 (semester_id sem) = Some c \<longrightarrow>
             get_schedule env p sem force w = (Inr c, p1, w1))
      \<and> ((force \<or> priv_schedule_cache p1 (semester_id sem) = None)
           \<and> priv_schedule_request_url p1 = None \<longrightarrow>
             get_schedule env p sem force w = (Inl MissingSchema, p1, w1))
      \<and> (\<forall>u r p' w'. (force \<or> priv_schedule_cache p1 (semester_id sem) = None)
             \<and> priv_schedule_request_url p1 = Some u
             \<and> get_schedule env p sem force w = (r, p', w') \<longrightarrow>
               (\<exists>rest. sent w' = sent w1 @ \<lparr>http_method = ''POST'', url = u, headers = HEADER_UA,
                      sent_cookies = jars w1 (page_cookies p1),
                      form_data = [(''AnSession'', semester_id sem), (''Confirm'', Some ''Obtain+my+schedule'')],
                      allow_redirects = True\<rparr> # rest)
             \<and> (\<forall>sch. r = Inr sch \<longrightarrow>
                   semester sch = sem
                 \<and> (\<exists>d. load_results_page env p1 sem w1 = (Inr d, w')
                        \<and> translate_table env d = Inr (courses sch))
                 \<and> p' = p1\<lparr>priv_schedule_cache := (priv_schedule_cache p1)(semester_id sem \<mapsto> sch)\<rparr>
                 \<and> priv_schedule_cache p' (semester_id sem) = Some sch)
             \<and> (\<forall>e. r = Inl e \<longrightarrow> p' = p1)))
   \<and> (\<forall>s0 ss. priv_semesters p = Some (s0 # ss) \<longrightarrow> fetch_if_needed env p w = (Inr (), p, w))"
proof -
  have hit: "get_schedule env p sem force w = (Inr c, p1, w1)"
    if f: "fetch_if_needed env p w = (Inr (), p1, w1)"
      and h: "\<not> force \<and> priv_schedule_cache p1 (semester_id sem) = Some c" for p1 w1 c
  proof -
    from h have nf: "force = False" and c: "priv_schedule_cache p1 (semester_id sem) = Some c"
      by simp_all
    show ?thesis unfolding nf using f c by (rule get_schedule_hit)
  qed
  have nourl: "get_schedule env p sem force w = (Inl MissingSchema, p1, w1)"
    if f: "fetch_if_needed env p w = (Inr (), p1, w1)"
      and h: "(force \<or> priv_schedule_cache p1 (semester_id sem) = None)
           \<and> priv_schedule_request_url p1 = None" for p1 w1
    using f h[THEN conjunct1] h[THEN conjunct2] by (rule get_schedule_without_url)
  have miss: "(\<exists>rest. sent w' = sent w1 @ \<lparr>http_method = ''POST'', url = u, headers = HEADER_UA,
                      sent_cookies = jars w1 (page_cookies p1),
                      form_data = [(''AnSession'', semester_id sem), (''Confirm'', Some ''Obtain+my+schedule'')],
                      allow_redirects = True\<rparr> # rest)
             \<and> (\<forall>sch. r = Inr sch \<longrightarrow>
                   semester sch = sem
                 \<and> (\<exists>d. load_results_page env p1 sem w1 = (Inr d, w')
                        \<and> translate_table env d = Inr (courses sch))
                 \<and> p' = p1\<lparr>priv_schedule_cache := (priv_schedule_cache p1)(semester_id sem \<mapsto> sch)\<rparr>
                 \<and> priv_schedule_cache p' (semester_id sem) = Some sch)
             \<and> (\<forall>e. r = Inl e \<longrightarrow> p' = p1)"
    if f: "fetch_if_needed env p w = (Inr (), p1, w1)"
      and h: "(force \<or> priv_schedule_cache p1 (semester_id sem) = None)
             \<and> priv_schedule_request_url p1 = Some u
             \<and> get_schedule env p sem force w = (r, p', w')" for p1 w1 u r p' w'
  proof -
    from h have m: "force \<or> priv_schedule_cache p1 (semester_id sem) = None"
      and u: "priv_schedule_request_url p1 = Some u"
      and g: "get_schedule env p sem force w = (r, p', w')" by simp_all
    note facts = get_schedule_miss_facts[OF f m u g]
    from facts(1) obtain rest where rest:
      "sent w' = sent w1 @ \<lparr>http_method = ''POST'', url = u, headers = HEADER_UA,
                        sent_cookies = jars w1 (page_cookies p1), form_data = schedule_form sem,
                        allow_redirects = True\<rparr> # rest \<and> length rest \<le> 1" ..
    have a: "\<exists>rest. sent w' = sent w1 @ \<lparr>http_method = ''POST'', url = u, headers = HEADER_UA,
                      sent_cookies = jars w1 (page_cookies p1),
                      form_data = [(''AnSession'', semester_id sem), (''Confirm'', Some ''Obtain+my+schedule'')],
                      allow_redirects = True\<rparr> # rest"
      using rest[THEN conjunct1] unfolding schedule_form_def by (rule exI[of _ rest])
    have b: "\<forall>sch. r = Inr sch \<longrightarrow>
                   semester sch = sem
                 \<and> (\<exists>d. load_results_page env p1 sem w1 = (Inr d, w')
                        \<and> translate_table env d = Inr (courses sch))
                 \<and> p' = p1\<lparr>priv_schedule_cache := (priv_schedule_cache p1)(semester_id sem \<mapsto> sch)\<rparr>
                 \<and> priv_schedule_cache p' (semester_id sem) = Some sch"
    proof (intro allI impI conjI)
      fix sch assume r: "r = Inr sch"
      show "semester sch = sem" using facts(2)[OF r] by (rule conjunct1)
      show "\<exists>d. load_results_page env p1 sem w1 = (Inr d, w')
                        \<and> translate_table env d = Inr (courses sch)"
        using get_schedule_miss_result[OF f m g r] .
      show p': "p' = p1\<lparr>priv_schedule_cache := (priv_schedule_cache p1)(semester_id sem \<mapsto> sch)\<rparr>"
        using facts(2)[OF r] by (rule conjunct2)
      show "priv_schedule_cache p' (semester_id sem) = Some sch"
        unfolding p' by simp
    qed
    have c: "\<forall>e. r = Inl e \<longrightarrow> p' = p1"
    proof (intro allI impI)
      fix e assume "r = Inl e"
      then show "p' = p1" by (rule facts(3))
    qed
    show ?thesis using a b c by (intro conjI)
  qed
  have 1: "\<forall>e p1 w1. fetch_if_needed env p w = (Inl e, p1, w1) \<longrightarrow>
       get_schedule env p sem force w = (Inl e, p1, w1)"
    using get_schedule_discovery_fails by (intro allI impI)
  have 2: "\<forall>p1 w1. fetch_if_needed env p w = (Inr (), p1, w1) \<longrightarrow>
        (\<forall>c. \<not> force \<and> priv_schedule_cache p1 (semester_id sem) = Some c \<longrightarrow>
             get_schedule env p sem force w = (Inr c, p1, w1))
      \<and> ((force \<or> priv_schedule_cache p1 (semester_id sem) = None)
           \<and> priv_schedule_request_url p1 = None \<longrightarrow>
             get_schedule env p sem force w = (Inl MissingSchema, p1, w1))
      \<and> (\<forall>u r p' w'. (force \<or> priv_schedule_cache p1 (semester_id sem) = None)
             \<and> priv_schedule_request_url p1 = Some u
             \<and> get_schedule env p sem force w = (r, p', w') \<longrightarrow>
               (\<exists>rest. sent w' = sent w1 @ \<lparr>http_method = ''POST'', url = u, headers = HEADER_UA,
                      sent_cookies = jars w1 (page_cookies p1),
                      form_data = [(''AnSession'', semester_id sem), (''Confirm'', Some ''Obtain+my+schedule'')],
                      allow_redirects = True\<rparr> # rest)
             \<and> (\<forall>sch. r = Inr sch \<longrightarrow>
                   semester sch = sem
                 \<and> (\<exists>d. load_results_page env p1 sem w1 = (Inr d, w')
                        \<and> translate_table env d = Inr (courses sch))
                 \<and> p' = p1\<lparr>priv_schedule_cache := (priv_schedule_cache p1)(semester_id sem \<mapsto> sch)\<rparr>
                 \<and> priv_schedule_cache p' (semester_id sem) = Some sch)
             \<and> (\<forall>e. r = Inl e \<longrightarrow> p' = p1))"
  proof (intro allI impI)
    fix p1 :: page and w1 :: world
    assume f: "fetch_if_needed env p w = (Inr (), p1, w1)"
    have x: "\<forall>c. \<not> force \<and> priv_schedule_cache p1 (semester_id sem) = Some c \<longrightarrow>
             get_schedule env p sem force w = (Inr c, p1, w1)"
      using hit[OF f] by (intro allI impI)
    have y: "(force \<or> priv_schedule_cache p1 (semester_id sem) = None)
           \<and> priv_schedule_request_url p1 = None \<longrightarrow>
             get_schedule env p sem force w = (Inl MissingSchema, p1, w1)"
      using nourl[OF f] by (intro impI)
    have z: "\<forall>u r p' w'. (force \<or> priv_schedule_cache p1 (semester_id sem) = None)
             \<and> priv_schedule_request_url p1 = Some u
             \<and> get_schedule env p sem force w = (r, p', w') \<longrightarrow>
               (\<exists>rest. sent w' = sent w1 @ \<lparr>http_method = ''POST'', url = u, headers = HEADER_UA,
                      sent_cookies = jars w1 (page_cookies p1),
                      form_data = [(''AnSession'', semester_id sem), (''Confirm'', Some ''Obtain+my+schedule'')],
                      allow_redirects = True\<rparr> # rest)
             \<and> (\<forall>sch. r = Inr sch \<longrightarrow>
                   semester sch = sem
                 \<and> (\<exists>d. load_results_page env p1 sem w1 = (Inr d, w')
                        \<and> translate_table env d = Inr (courses sch))
                 \<and> p' = p1\<lparr>priv_schedule_cache := (priv_schedule_cache p1)(semester_id sem \<mapsto> sch)\<rparr>
                 \<and> priv_schedule_cache p' (semester_id sem) = Some sch)
             \<and> (\<forall>e. r = Inl e \<longrightarrow> p' = p1)"
      using miss[OF f] by (intro allI impI)
    show "(\<forall>c. \<not> force \<and> priv_schedule_cache p1 (semester_id sem) = Some c \<longrightarrow>
             get_schedule env p sem force w = (Inr c, p1, w1))
      \<and> ((force \<or> priv_schedule_cache p1 (semester_id sem) = None)
           \<and> priv_schedule_request_url p1 = None \<longrightarrow>
             get_schedule env p sem force w = (Inl MissingSchema, p1, w1))
      \<and> (\<forall>u r p' w'. (force \<or> priv_schedule_cache p1 (semester_id sem) = None)
             \<and> priv_schedule_request_url p1 = Some u
             \<and> get_schedule env p sem force w = (r, p', w') \<longrightarrow>
               (\<exists>rest. sent w' = sent w1 @ \<lparr>http_method = ''POST'', url = u, headers = HEADER_UA,
                      sent_cookies = jars w1 (page_cookies p1),
                      form_data = [(''AnSession'', semester_id sem), (''Confirm'', Some ''Obtain+my+schedule'')],
                      allow_redirects = True\<rparr> # rest)
             \<and> (\<forall>sch. r = Inr sch \<longrightarrow>
                   semester sch = sem
                 \<and> (\<exists>d. load_results_page env p1 sem w1 = (Inr d, w')
                        \<and> translate_table env d = Inr (courses sch))
                 \<and> p' = p1\<lparr>priv_schedule_cache := (priv_schedule_cache p1)(semester_id sem \<mapsto> sch)\<rparr>
                 \<and> priv_schedule_cache p' (semester_id sem) = Some sch)
             \<and> (\<forall>e. r = Inl e \<longrightarrow> p' = p1))"
      using x y z by (intro conjI)
  qed
  have 3: "\<forall>s0 ss. priv_semesters p = Some (s0 # ss) \<longrightarrow> fetch_if_needed env p w = (Inr (), p, w)"
    using fetch_if_needed_skip by (intro allI impI)
  show ?thesis using 1 2 3 by (intro conjI)
qed

text \<open>Two calls that send no request with the id of the argument: a second semester
  value with the id of a cached one, which gets the schedule of the first; and a forced
  call on a page whose \<^verbatim>\<open>fetch\<close> failed on the form action.\<close>

theorem get_schedule_cached_semester_counterexample:
  "get_schedule (site_env site1) pageD fall False worldD = (Inr schedF, pageF, worldF)
   \<and> get_schedule (site_env site1) pageF autumn False worldF = (Inr schedF, pageF, worldF)
   \<and> semester schedF \<noteq> autumn
   \<and> fetch (site_env site_noaction) page0 world2 = (Inl TypeError, pageN, world_noaction)
   \<and> get_schedule (site_env site_noaction) pageN summer99 True world_noaction
        = (Inl MissingSchema, pageN, world_noaction)"
proof -
  have f: "fetch_if_needed (site_env site1) pageF worldF = (Inr (), pageF, worldF)"
    using pageF_discovered(1) by (rule fetch_if_needed_skip)
  have 2: "get_schedule (site_env site1) pageF autumn False worldF = (Inr schedF, pageF, worldF)"
    using f pageF_discovered(4) by (rule get_schedule_hit)
  have 3: "semester schedF \<noteq> autumn" by (simp add: schedF_def fall_def autumn_def)
  have fn: "fetch_if_needed (site_env site_noaction) pageN world_noaction = (Inr (), pageN, world_noaction)"
    using pageN_facts(1) by (rule fetch_if_needed_skip)
  have m: "True \<or> priv_schedule_cache pageN (semester_id summer99) = None" by simp
  have n: "get_schedule (site_env site_noaction) pageN summer99 True world_noaction
        = (Inl MissingSchema, pageN, world_noaction)"
    using fn m pageN_facts(2) by (rule get_schedule_without_url)
  show ?thesis using first_call_fall 2 3 fetch_noaction n by (intro conjI)
qed

theorem get_schedule_takes_any_semester_witness:
  "summer99 \<notin> set [fall, winter]
   \<and> priv_semesters pageD = Some [fall, winter]
   \<and> fetch_if_needed (site_env site1) pageD worldD = (Inr (), pageD, worldD)
   \<and> fst (get_schedule (site_env site1) pageD summer99 False worldD)
        = Inr \<lparr>semester = summer99, courses = [intro_course]\<rparr>
   \<and> (\<exists>rest. sent world99 = sent worldD @
          \<lparr>http_method = ''POST'', url = ''https://vaniercollege-estd.omnivox.ca/estd/hrre/ask.ovx'',
           headers = HEADER_UA, sent_cookies = jars worldD (page_cookies pageD),
           form_data = [(''AnSession'', semester_id summer99), (''Confirm'', Some ''Obtain+my+schedule'')],
           allow_redirects = True\<rparr> # rest)
   \<and> (\<exists>d. load_results_page (site_env site1) pageD summer99 worldD = (Inr d, world99)
          \<and> translate_table (site_env site1) d = Inr [intro_course])
   \<and> priv_schedule_cache (fst (snd (get_schedule (site_env site1) pageD summer99 False worldD)))
        (semester_id summer99) = Some \<lparr>semester = summer99, courses = [intro_course]\<rparr>
   \<and> get_schedule (site_env site1) pageF fall False worldF = (Inr schedF, pageF, worldF)
   \<and> get_schedule (site_env site1) pageN summer99 False worldD = (Inl MissingSchema, pageN, worldD)
   \<and> get_schedule (site_env site1) page_noref summer99 False world2 = (Inl TypeError, page_noref, world2)"
proof -
  let ?g = "get_schedule (site_env site1) pageD summer99 False worldD"
  let ?sch = "\<lparr>semester = summer99, courses = [intro_course]\<rparr>"
  note t = get_schedule_takes_any_semester[of "site_env site1" pageD worldD summer99 False]
  have f: "fetch_if_needed (site_env site1) pageD worldD = (Inr (), pageD, worldD)"
    using t[THEN conjunct2, THEN conjunct2, rule_format, OF pageD_discovered(1)] .
  have g: "?g = (Inr ?sch, fst (snd ?g), world99)"
    unfolding world99_def using get_schedule_summer99 by (simp add: prod_eq_iff)
  have h: "(False \<or> priv_schedule_cache pageD (semester_id summer99) = None)
             \<and> priv_schedule_request_url pageD = Some ''https://vaniercollege-estd.omnivox.ca/estd/hrre/ask.ovx''
             \<and> ?g = (Inr ?sch, fst (snd ?g), world99)"
    using pageD_discovered(4) pageD_discovered(2) g by simp
  note tm = t[THEN conjunct2, THEN conjunct1, rule_format, OF f, THEN conjunct2, THEN conjunct2,
      rule_format, OF h]
  note c = tm[THEN conjunct2, THEN conjunct1, rule_format, OF refl]
  have tr: "\<exists>d. load_results_page (site_env site1) pageD summer99 worldD = (Inr d, world99)
          \<and> translate_table (site_env site1) d = Inr [intro_course]"
    using c[THEN conjunct2, THEN conjunct1] by simp
  have 0: "summer99 \<notin> set [fall, winter]" by (simp add: summer99_def fall_def winter_def)
  have 1: "priv_semesters pageD = Some [fall, winter]" by (simp add: pageD_def)
  note tF = get_schedule_takes_any_semester[of "site_env site1" pageF worldF fall False]
  have fF: "fetch_if_needed (site_env site1) pageF worldF = (Inr (), pageF, worldF)"
    using tF[THEN conjunct2, THEN conjunct2, rule_format, OF pageF_discovered(1)] .
  have hF: "\<not> False \<and> priv_schedule_cache pageF (semester_id fall) = Some schedF"
    using pageF_discovered(3) by simp
  have hitF: "get_schedule (site_env site1) pageF fall False worldF = (Inr schedF, pageF, worldF)"
    using tF[THEN conjunct2, THEN conjunct1, rule_format, OF fF, THEN conjunct1, rule_format, OF hF] .
  note tN = get_schedule_takes_any_semester[of "site_env site1" pageN worldD summer99 False]
  have fN: "fetch_if_needed (site_env site1) pageN worldD = (Inr (), pageN, worldD)"
    using tN[THEN conjunct2, THEN conjunct2, rule_format, OF pageN_facts(1)] .
  have hN: "(False \<or> priv_schedule_cache pageN (semester_id summer99) = None)
           \<and> priv_schedule_request_url pageN = None"
    by (simp add: pageN_def page0_def)
  have noN: "get_schedule (site_env site1) pageN summer99 False worldD = (Inl MissingSchema, pageN, worldD)"
    using tN[THEN conjunct2, THEN conjunct1, rule_format, OF fN, THEN conjunct2, THEN conjunct1,
        rule_format, OF hN] .
  note tR = get_schedule_takes_any_semester[of "site_env site1" page_noref world2 summer99 False]
  have fR: "fetch_if_needed (site_env site1) page_noref world2 = (Inl TypeError, page_noref, world2)"
  proof -
    have "py_not (priv_semesters page_noref)" by (simp add: page_noref_def py_not_def)
    moreover have "schedule_reference page_noref = None" by (simp add: page_noref_def)
    ultimately show ?thesis by (simp add: fetch_if_needed_def fetch_without_reference)
  qed
  have failR: "get_schedule (site_env site1) page_noref summer99 False world2
                 = (Inl TypeError, page_noref, world2)"
    using tR[THEN conjunct1, rule_format, OF fR] .
  show ?thesis
    using 0 1 f get_schedule_summer99 tm[THEN conjunct1] tr
      c[THEN conjunct2, THEN conjunct2, THEN conjunct2] hitF noN failR
    by (intro conjI)
qed

end
